theory Spec2Isabelle
  imports Complex_Main "HOL-Library.AList"
begin

section \<open>Python strings\<close>

text \<open>
  A Python \<open>str\<close> is modelled as a \<open>string\<close> holding its UTF-8 bytes.
  \<open>str.strip()\<close> removes every leading and trailing white-space character; the
  white-space characters of Python are the code points U+0009..U+000D, U+001C..U+0020,
  U+0085, U+00A0, U+1680, U+2000..U+200A, U+2028, U+2029, U+202F, U+205F and U+3000.
  They are recognised here by their one-, two- and three-byte encodings.
\<close>

definition is_space1 :: "char \<Rightarrow> bool" where
  "is_space1 a = (let n = (of_char a :: nat) in (9 \<le> n \<and> n \<le> 13) \<or> (28 \<le> n \<and> n \<le> 32))"

definition is_space2 :: "char \<Rightarrow> char \<Rightarrow> bool" where
  "is_space2 a b =
     ((of_char a :: nat) = 0xC2 \<and> ((of_char b :: nat) = 0x85 \<or> (of_char b :: nat) = 0xA0))"

definition is_space3 :: "char \<Rightarrow> char \<Rightarrow> char \<Rightarrow> bool" where
  "is_space3 a b c =
     (let x = (of_char a :: nat); y = (of_char b :: nat); z = (of_char c :: nat) in
        (x = 0xE1 \<and> y = 0x9A \<and> z = 0x80)
      \<or> (x = 0xE2 \<and> y = 0x80 \<and> ((0x80 \<le> z \<and> z \<le> 0x8A) \<or> z = 0xA8 \<or> z = 0xA9 \<or> z = 0xAF))
      \<or> (x = 0xE2 \<and> y = 0x81 \<and> z = 0x9F)
      \<or> (x = 0xE3 \<and> y = 0x80 \<and> z = 0x80))"

text \<open>
  \<open>strip_front\<close> drops white space from the front of a byte string; the three tests
  are parameters so that the same scan serves the reversed string.
\<close>

fun strip_front ::
  "(char \<Rightarrow> bool) \<Rightarrow> (char \<Rightarrow> char \<Rightarrow> bool) \<Rightarrow> (char \<Rightarrow> char \<Rightarrow> char \<Rightarrow> bool)
     \<Rightarrow> string \<Rightarrow> string" where
  "strip_front p1 p2 p3 [] = []"
| "strip_front p1 p2 p3 [a] = (if p1 a then [] else [a])"
| "strip_front p1 p2 p3 [a, b] =
     (if p1 a then strip_front p1 p2 p3 [b] else if p2 a b then [] else [a, b])"
| "strip_front p1 p2 p3 (a # b # c # cs) =
     (if p1 a then strip_front p1 p2 p3 (b # c # cs)
      else if p2 a b then strip_front p1 p2 p3 (c # cs)
      else if p3 a b c then strip_front p1 p2 p3 cs
      else a # b # c # cs)"

definition lstrip :: "string \<Rightarrow> string" where
  "lstrip s = strip_front is_space1 is_space2 is_space3 s"

definition rstrip :: "string \<Rightarrow> string" where
  "rstrip s =
     rev (strip_front is_space1 (\<lambda>b a. is_space2 a b) (\<lambda>c b a. is_space3 a b c) (rev s))"

definition strip :: "string \<Rightarrow> string" where
  "strip s = rstrip (lstrip s)"

text \<open>\<open>sep.join(xs)\<close>.\<close>

fun join :: "string \<Rightarrow> string list \<Rightarrow> string" where
  "join sep [] = []"
| "join sep [x] = x"
| "join sep (x # y # ys) = x @ sep @ join sep (y # ys)"

text \<open>
  \<open>str(n)\<close> for an integer: the decimal digits, most significant first, after a minus
  sign when the integer is negative.
\<close>

definition digit_char :: "nat \<Rightarrow> char" where
  "digit_char d = ''0123456789'' ! d"

function str_nat :: "nat \<Rightarrow> string" where
  "str_nat n = (if n < 10 then [digit_char n] else str_nat (n div 10) @ [digit_char (n mod 10)])"
  by pat_completeness auto
termination
  by (relation "measure (\<lambda>n. n)") auto

declare str_nat.simps [simp del]

definition str_int :: "int \<Rightarrow> string" where
  "str_int i = (if i < 0 then CHR ''-'' # str_nat (nat (- i)) else str_nat (nat i))"

text \<open>\<open>int(x)\<close> of a float truncates toward zero.\<close>

definition py_int :: "real \<Rightarrow> int" where
  "py_int x = (if 0 \<le> x then \<lfloor>x\<rfloor> else \<lceil>x\<rceil>)"

text \<open>Reading a decimal numeral back; used to show that \<open>str\<close> is injective.\<close>

definition digit_val :: "char \<Rightarrow> nat" where
  "digit_val c = (of_char c :: nat) - 48"

definition nat_of_digits :: "string \<Rightarrow> nat" where
  "nat_of_digits cs = foldl (\<lambda>acc c. 10 * acc + digit_val c) 0 cs"


section \<open>State store\<close>

text \<open>
  The \<open>messages\<close> table: rows in the order of their autoincrement \<open>id\<close>, with the unique
  index on \<open>(thread_key, msg_hash)\<close>. The \<open>thread_state\<close> table: one row for each
  \<open>thread_key\<close>.
\<close>

record msg_row =
  m_thread_key :: string
  m_hash :: string
  m_role :: string
  m_text :: string
  m_created_at :: int

record thread_row =
  t_buyer_name :: string
  t_thread_href :: "string option"
  t_last_seen_bottom :: "string option"
  t_last_seen_incoming :: "string option"
  t_last_sent_by_us :: "string option"
  t_updated_at :: int

text \<open>
  \<open>_hash_msg\<close>: the first 32 hexadecimal digits of the SHA-256 digest of
  \<open>thread_key|role|text\<close>. The digest function of \<open>hashlib\<close> is a parameter, \<open>sha\<close>,
  from the byte string to its hexadecimal digest.
\<close>

definition hash_msg :: "(string \<Rightarrow> string) \<Rightarrow> string \<Rightarrow> string \<Rightarrow> string \<Rightarrow> string" where
  "hash_msg sha thread_key role text = take 32 (sha (thread_key @ ''|'' @ role @ ''|'' @ text))"

text \<open>
  \<open>db_insert_message\<close>: the text is stripped, an empty text is refused, and
  \<open>INSERT OR IGNORE\<close> adds the row unless a row with the same \<open>(thread_key, msg_hash)\<close>
  is stored; the result is \<open>cur.rowcount == 1\<close>.
\<close>

definition db_insert_message ::
  "(string \<Rightarrow> string) \<Rightarrow> msg_row list \<Rightarrow> string \<Rightarrow> string \<Rightarrow> string \<Rightarrow> int
     \<Rightarrow> bool \<times> msg_row list" where
  "db_insert_message sha rows thread_key role text0 now =
     (let text = strip text0 in
      if text = [] then (False, rows)
      else
        let mh = hash_msg sha thread_key role text in
        if list_ex (\<lambda>r. m_thread_key r = thread_key \<and> m_hash r = mh) rows
        then (False, rows)
        else (True, rows @ [\<lparr>m_thread_key = thread_key, m_hash = mh, m_role = role,
                               m_text = text, m_created_at = now\<rparr>]))"

text \<open>
  \<open>db_get_recent_history\<close> and \<open>db_get_recent_buyer_messages_since\<close>: the newest
  \<open>limit\<close> matching rows (\<open>ORDER BY id DESC LIMIT ?\<close>), returned oldest first.
\<close>

definition db_get_recent_history :: "msg_row list \<Rightarrow> string \<Rightarrow> nat \<Rightarrow> (string \<times> string) list" where
  "db_get_recent_history rows thread_key limit =
     rev (take limit (rev (map (\<lambda>r. (m_role r, m_text r))
                             (filter (\<lambda>r. m_thread_key r = thread_key) rows))))"

definition db_get_recent_buyer_messages_since ::
  "msg_row list \<Rightarrow> string \<Rightarrow> int \<Rightarrow> nat \<Rightarrow> string list" where
  "db_get_recent_buyer_messages_since rows thread_key since limit =
     rev (take limit (rev (map m_text
        (filter (\<lambda>r. m_thread_key r = thread_key \<and> m_role r = ''buyer'' \<and> since \<le> m_created_at r)
                rows))))"

text \<open>
  \<open>db_upsert_thread_state\<close>: every column is overwritten except \<open>thread_href\<close>, which
  keeps the stored value when the new one is \<open>None\<close> (\<open>COALESCE\<close>).
\<close>

definition db_upsert_thread_state ::
  "(string \<rightharpoonup> thread_row) \<Rightarrow> string \<Rightarrow> string \<Rightarrow> string option \<Rightarrow> string option
     \<Rightarrow> string option \<Rightarrow> string option \<Rightarrow> int \<Rightarrow> (string \<rightharpoonup> thread_row)" where
  "db_upsert_thread_state tbl thread_key buyer_name thread_href lsb lsi lsu now =
     tbl(thread_key \<mapsto>
       \<lparr>t_buyer_name = buyer_name,
        t_thread_href =
          (case thread_href of
             Some h \<Rightarrow> Some h
           | None \<Rightarrow> (case tbl thread_key of None \<Rightarrow> None | Some old \<Rightarrow> t_thread_href old)),
        t_last_seen_bottom = lsb,
        t_last_seen_incoming = lsi,
        t_last_sent_by_us = lsu,
        t_updated_at = now\<rparr>)"

text \<open>
  The number of stored rows with a given \<open>thread_key\<close> and \<open>msg_hash\<close>, the key of the
  unique index.
\<close>

definition stored :: "msg_row list \<Rightarrow> string \<Rightarrow> string \<Rightarrow> nat" where
  "stored rows thread_key mh =
     length (filter (\<lambda>r. m_thread_key r = thread_key \<and> m_hash r = mh) rows)"

text \<open>
  Truth value of an optional string (\<open>None\<close> and \<open>""\<close> are false), and \<open>a or b\<close>.
\<close>

definition truthy :: "string option \<Rightarrow> bool" where
  "truthy x = (case x of None \<Rightarrow> False | Some v \<Rightarrow> v \<noteq> [])"

definition py_or :: "string option \<Rightarrow> string option \<Rightarrow> string option" where
  "py_or a b = (if truthy a then a else b)"

definition or_str :: "string option \<Rightarrow> string \<Rightarrow> string" where
  "or_str a d = (case a of None \<Rightarrow> d | Some v \<Rightarrow> if v = [] then d else v)"


section \<open>Pipeline state\<close>

text \<open>
  The module-level state of \<open>messenger_bot_v4.py\<close>, with the two tables of the
  database. \<open>messenger_bot_v3.py\<close> has the same state without \<open>approval_meta\<close>,
  \<open>custom_reply_wait\<close> and \<open>send_queue\<close>.

  A debounce window is the dictionary stored in \<open>pending_threads\<close>; that dictionary
  keeps its insertion order, so it is an association list.
\<close>

record window =
  since_ts :: int
  last_update :: real
  w_href :: "string option"
  w_buyer_name :: string

text \<open>The state of an \<open>asyncio.Future\<close>; \<open>done()\<close> holds in all states but \<open>Pending\<close>.\<close>

datatype fut = Pending | Result bool | Cancelled

text \<open>The metadata of an approval request, as stored in \<open>approval_meta\<close>.\<close>

record approval =
  a_thread_key :: string
  a_href :: "string option"
  a_buyer_name :: string
  a_meetup_log :: "string option"
  a_intent :: string
  a_yes_text :: string
  a_no_text :: string

text \<open>An entry of \<open>send_queue\<close>.\<close>

record send_action =
  sa_type :: string
  sa_request_id :: string
  sa_thread_key :: string
  sa_href :: "string option"
  sa_buyer_name :: string
  sa_text :: string
  sa_meetup_log :: "string option"

text \<open>
  \<open>futures\<close> is the heap of future objects and \<open>next_future\<close> the next free address:
  \<open>pending_approvals\<close> stores references, and two requests may hold different futures
  under one id. \<open>sent\<close> lists, oldest first, the pairs of thread and text for which
  \<open>send_message\<close> returned true; \<open>meetups\<close> is the meetup log file.
\<close>

record bot =
  messages :: "msg_row list"
  thread_state :: "string \<rightharpoonup> thread_row"
  pending_threads :: "(string \<times> window) list"
  last_sent_by_us :: "string \<rightharpoonup> string"
  last_seen_bottom :: "string \<rightharpoonup> string"
  last_seen_incoming :: "string \<rightharpoonup> string"
  pending_approvals :: "string \<rightharpoonup> nat"
  approval_meta :: "string \<rightharpoonup> approval"
  custom_reply_wait :: "string \<rightharpoonup> string"
  send_queue :: "send_action list"
  futures :: "nat \<Rightarrow> fut"
  next_future :: nat
  sent :: "(string \<times> string) list"
  meetups :: "(string \<times> string \<times> string \<times> string) list"

definition DEBOUNCE_SECONDS :: real where
  "DEBOUNCE_SECONDS = 3"

definition MAX_BATCH_MESSAGES :: nat where
  "MAX_BATCH_MESSAGES = 8"

definition MAX_BATCH_MESSAGES_v3 :: nat where
  "MAX_BATCH_MESSAGES_v3 = 6"


section \<open>Decision engine adapter\<close>

text \<open>
  The dictionary that the decision engine returns. Every key may be missing; a key with
  the value \<open>null\<close> is read like a missing key, which is what the source does for every
  key but \<open>intent_summary\<close>: a \<open>null\<close> there, and values of another type than the
  prompt's format asks for, are outside the model.
\<close>

record analysis =
  category :: "string option"
  requires_approval :: "bool option"
  intent_summary :: "string option"
  reply_if_accepted :: "string option"
  reply_if_declined :: "string option"
  meetup_confirmed :: "bool option"
  meetup_time_text :: "string option"
  notes_for_owner :: "string option"

text \<open>
  What one \<open>requests.post\<close> of \<open>_call_proxy_chat\<close> leads to: the request raises
  (connection error, timeout), the status is 503, \<open>raise_for_status\<close> raises, the body
  is not the expected JSON, or the reply's content is read.
\<close>

datatype http_outcome = RequestFailed | Status503 | StatusError | BadBody | Content string

text \<open>
  The exceptions of the model: the \<open>RuntimeError\<close> of \<open>_call_proxy_chat\<close>, the
  \<open>ValueError\<close> of a failed unpacking, and the error that a call of the Telegram API
  raises when the message cannot be delivered.
\<close>

datatype error = RuntimeError | ValueError | TelegramError

definition PROXY_BASE_URLS :: "string list" where
  "PROXY_BASE_URLS = [''https://api.ttk.homes/v1'', ''https://ai.ttk.homes/v1'']"

text \<open>
  The inner loop of \<open>_call_proxy_chat\<close> over the attempts at one base URL. \<open>post\<close> gives
  the outcome of each attempt and \<open>extract_json\<close> is \<open>_extract_json\<close>, \<open>None\<close> when it
  raises. A 503 moves on to the next attempt, every exception leaves the loop
  (\<open>break\<close>), and a parsed reply is returned.
\<close>

fun attempts :: "(nat \<Rightarrow> http_outcome) \<Rightarrow> (string \<Rightarrow> analysis option) \<Rightarrow> nat list \<Rightarrow> analysis option" where
  "attempts post extract_json [] = None"
| "attempts post extract_json (attempt # rest) =
     (case post attempt of
        Status503 \<Rightarrow> attempts post extract_json rest
      | Content c \<Rightarrow> extract_json c
      | RequestFailed \<Rightarrow> None
      | StatusError \<Rightarrow> None
      | BadBody \<Rightarrow> None)"

fun call_bases ::
  "(string \<Rightarrow> nat \<Rightarrow> http_outcome) \<Rightarrow> (string \<Rightarrow> analysis option) \<Rightarrow> string list
     \<Rightarrow> error + analysis" where
  "call_bases post extract_json [] = Inl RuntimeError"
| "call_bases post extract_json (base # bases) =
     (case attempts (post base) extract_json [1, 2, 3] of
        Some a \<Rightarrow> Inr a
      | None \<Rightarrow> call_bases post extract_json bases)"

definition call_proxy_chat ::
  "(string \<Rightarrow> nat \<Rightarrow> http_outcome) \<Rightarrow> (string \<Rightarrow> analysis option) \<Rightarrow> error + analysis" where
  "call_proxy_chat post extract_json = call_bases post extract_json PROXY_BASE_URLS"

definition fallback_analysis :: analysis where
  "fallback_analysis =
     \<lparr>category = Some ''other'', requires_approval = Some True,
      intent_summary = Some ''AI Error'', reply_if_accepted = None, reply_if_declined = None,
      meetup_confirmed = Some False, meetup_time_text = Some [],
      notes_for_owner = Some ''AI error occurred.''\<rparr>"

text \<open>
  \<open>analyze_message\<close> of version 4: \<open>except Exception\<close> around the call returns the
  fallback dictionary. The result is a sum so that an exception that left the function
  would be a value \<open>Inl\<close>.
\<close>

definition analyze_message ::
  "(string \<Rightarrow> nat \<Rightarrow> http_outcome) \<Rightarrow> (string \<Rightarrow> analysis option) \<Rightarrow> error + analysis" where
  "analyze_message post extract_json =
     (case call_proxy_chat post extract_json of
        Inr a \<Rightarrow> Inr a
      | Inl e \<Rightarrow> Inr fallback_analysis)"

text \<open>\<open>analyze_message\<close> of version 3: the same, with its own fallback dictionary.\<close>

definition fallback_analysis_v3 :: analysis where
  "fallback_analysis_v3 =
     \<lparr>category = None, requires_approval = Some False,
      intent_summary = Some ''AI Error'', reply_if_accepted = None, reply_if_declined = None,
      meetup_confirmed = None, meetup_time_text = None, notes_for_owner = None\<rparr>"

definition analyze_message_v3 ::
  "(string \<Rightarrow> nat \<Rightarrow> http_outcome) \<Rightarrow> (string \<Rightarrow> analysis option) \<Rightarrow> error + analysis" where
  "analyze_message_v3 post extract_json =
     (case call_proxy_chat post extract_json of
        Inr a \<Rightarrow> Inr a
      | Inl e \<Rightarrow> Inr fallback_analysis_v3)"

text \<open>
  An outcome of a request from which \<open>_call_proxy_chat\<close> gets no analysis: a failure of
  the network, a timeout, a bad status, or an output that is not the expected JSON.
\<close>

definition unusable :: "(string \<Rightarrow> analysis option) \<Rightarrow> http_outcome \<Rightarrow> bool" where
  "unusable ex out = (case out of Content c \<Rightarrow> ex c = None | _ \<Rightarrow> True)"


section \<open>Approval coordinator\<close>

text \<open>
  What the operator does in Telegram while a request waits: a tap on a button, which
  arrives as a callback query with its data and the chat of the message, or a text
  message in a chat. A tap whose acknowledgement (\<open>query.answer\<close>) raises ends its
  handler before anything is read or written; such a tap is no event here. The other
  calls of the Telegram API in the two handlers either stand in a \<open>try\<close> or come after
  the last write.
\<close>

datatype ui_event = Callback string string | AdminText string string

text \<open>\<open>data.split("_", 1)\<close> for a string that holds an underscore.\<close>

definition split_once :: "string \<Rightarrow> string \<times> string" where
  "split_once data =
     (takeWhile (\<lambda>c. c \<noteq> CHR ''_'') data, drop 1 (dropWhile (\<lambda>c. c \<noteq> CHR ''_'') data))"

text \<open>
  The three lines that both handlers of version 4 use to complete a request:
  \<open>fut = pending_approvals.get(request_id)\<close>, then \<open>fut.set_result(v)\<close> when there is a
  future and it is not done.
\<close>

definition resolve_pending :: "bot \<Rightarrow> string \<Rightarrow> bool \<Rightarrow> bot" where
  "resolve_pending s request_id v =
     (case pending_approvals s request_id of
        None \<Rightarrow> s
      | Some f \<Rightarrow>
          if futures s f = Pending then s\<lparr>futures := (futures s)(f := Result v)\<rparr> else s)"

text \<open>\<open>handle_approval\<close> of version 4. Editing the Telegram message is not part of the state.\<close>

definition handle_approval :: "bot \<Rightarrow> string \<Rightarrow> string \<Rightarrow> bot" where
  "handle_approval s data chat_id =
     (if CHR ''_'' \<in> set data then
        (let (action, request_id) = split_once data in
         case approval_meta s request_id of
           None \<Rightarrow> s
         | Some meta \<Rightarrow>
             if action = ''approve'' \<or> action = ''decline''
             then resolve_pending s request_id (action = ''approve'')
             else if action = ''custom''
             then s\<lparr>custom_reply_wait := (custom_reply_wait s)(chat_id \<mapsto> request_id)\<rparr>
             else s)
      else s)"

text \<open>\<open>handle_admin_text\<close> of version 4.\<close>

definition handle_admin_text :: "bot \<Rightarrow> string \<Rightarrow> string \<Rightarrow> bot" where
  "handle_admin_text s chat_id text =
     (case custom_reply_wait s chat_id of
        None \<Rightarrow> s
      | Some request_id \<Rightarrow>
          (case approval_meta s request_id of
             None \<Rightarrow> s\<lparr>custom_reply_wait := (custom_reply_wait s)(chat_id := None)\<rparr>
           | Some meta \<Rightarrow>
               (let custom_text = strip text in
                if custom_text = [] then s
                else
                  (let s1 = s\<lparr>send_queue := send_queue s @
                              [\<lparr>sa_type = ''send_custom'', sa_request_id = request_id,
                                sa_thread_key = a_thread_key meta, sa_href = a_href meta,
                                sa_buyer_name = a_buyer_name meta, sa_text = custom_text,
                                sa_meetup_log = a_meetup_log meta\<rparr>]\<rparr>;
                       s2 = resolve_pending s1 request_id True
                   in s2\<lparr>custom_reply_wait := (custom_reply_wait s2)(chat_id := None)\<rparr>))))"

definition ui_step :: "bot \<Rightarrow> ui_event \<Rightarrow> bot" where
  "ui_step s e =
     (case e of
        Callback data chat_id \<Rightarrow> handle_approval s data chat_id
      | AdminText chat_id text \<Rightarrow> handle_admin_text s chat_id text)"

fun run_ui :: "ui_event list \<Rightarrow> bot \<Rightarrow> bot" where
  "run_ui [] s = s"
| "run_ui (e # es) s = run_ui es (ui_step s e)"

text \<open>
  \<open>ask_human_approval\<close> of version 4, in three parts. The request id is the clock of the
  event loop, a number of seconds taken here as a real number, in whole milliseconds.
  \<open>ask_begin\<close> is the function up to its \<open>await\<close>: it creates the future and stores it
  and the metadata under the id. The dictionary passed as \<open>meta\<close> is the record \<open>meta\<close>.
\<close>

record meta =
  mt_thread_key :: string
  mt_href :: "string option"
  mt_buyer_name :: string
  mt_meetup_log :: "string option"

definition request_id_of :: "real \<Rightarrow> string" where
  "request_id_of t = str_int (py_int (t * 1000))"

definition ask_begin ::
  "bot \<Rightarrow> real \<Rightarrow> string \<Rightarrow> string \<Rightarrow> string \<Rightarrow> string \<Rightarrow> meta \<Rightarrow> bot" where
  "ask_begin s t buyer intent yes_text no_text meta =
     (let request_id = request_id_of t; future = next_future s in
      s\<lparr>futures := (futures s)(future := Pending),
        next_future := future + 1,
        pending_approvals := (pending_approvals s)(request_id \<mapsto> future),
        approval_meta := (approval_meta s)(request_id \<mapsto>
          \<lparr>a_thread_key = mt_thread_key meta, a_href = mt_href meta, a_buyer_name = buyer,
           a_meetup_log = mt_meetup_log meta, a_intent = intent, a_yes_text = yes_text,
           a_no_text = no_text\<rparr>)\<rparr>)"

text \<open>
  \<open>asyncio.wait_for(future, timeout=3600)\<close>. The events of the operator come with the
  reading of the clock of the event loop at which their handler runs, in the order of
  their arrival. The wait goes on while the future is pending and the next event comes
  before the deadline; it is over as soon as the future is done, or when the deadline
  passes with the future still pending, which is also the case when no event is left.
  The events that the wait has not used are handed back.
\<close>

fun await_future ::
  "nat \<Rightarrow> real \<Rightarrow> (real \<times> ui_event) list \<Rightarrow> bot \<Rightarrow> bot \<times> (real \<times> ui_event) list" where
  "await_future f deadline [] s = (s, [])"
| "await_future f deadline ((tm, e) # es) s =
     (if futures s f = Pending \<and> tm < deadline then await_future f deadline es (ui_step s e)
      else (s, (tm, e) # es))"

text \<open>
  The end of \<open>ask_human_approval\<close>: the result of the future, or false after the
  timeout, which cancels the future; \<open>finally\<close> removes the id from both dictionaries.
\<close>

definition ask_end :: "bot \<Rightarrow> string \<Rightarrow> nat \<Rightarrow> bool \<times> bot" where
  "ask_end s request_id future =
     (let s' = s\<lparr>pending_approvals := (pending_approvals s)(request_id := None),
                 approval_meta := (approval_meta s)(request_id := None)\<rparr>
      in case futures s future of
           Result b \<Rightarrow> (b, s')
         | Pending \<Rightarrow> (False, s'\<lparr>futures := (futures s)(future := Cancelled)\<rparr>)
         | Cancelled \<Rightarrow> (False, s'))"

text \<open>
  \<open>ask_human_approval\<close> of version 4. Between the two parts above the request is sent
  to the operator (\<open>bot_app.bot.send_message\<close>), outside of the \<open>try\<close>: \<open>delivered\<close>
  tells whether that call returns. When it raises, the exception leaves the function and
  what \<open>ask_begin\<close> has stored stays. Otherwise the wait lasts 3600 seconds from the
  reading \<open>t\<close> of the clock; the time that the delivery takes is not counted. The first
  component of the result is the exception or the value returned.
\<close>

definition ask_human_approval ::
  "bot \<Rightarrow> real \<Rightarrow> string \<Rightarrow> string \<Rightarrow> string \<Rightarrow> string \<Rightarrow> meta \<Rightarrow> bool
     \<Rightarrow> (real \<times> ui_event) list \<Rightarrow> (error + bool) \<times> bot \<times> (real \<times> ui_event) list" where
  "ask_human_approval s t buyer intent yes_text no_text meta delivered events =
     (let s1 = ask_begin s t buyer intent yes_text no_text meta in
      if \<not> delivered then (Inl TelegramError, s1, events)
      else
        (let (s2, rest) = await_future (next_future s) (t + 3600) events s1;
             (r, s3) = ask_end s2 (request_id_of t) (next_future s)
         in (Inr r, s3, rest)))"

text \<open>
  Version 3 has the two buttons only. Its \<open>handle_approval\<close> unpacks \<open>data.split("_", 1)\<close>
  without a test, which raises \<open>ValueError\<close> when there is no underscore; every action
  other than \<open>approve\<close> sets the result false.
\<close>

definition handle_approval_v3 :: "bot \<Rightarrow> string \<Rightarrow> error + bot" where
  "handle_approval_v3 s data =
     (if CHR ''_'' \<in> set data then
        (let (action, request_id) = split_once data in
         case pending_approvals s request_id of
           None \<Rightarrow> Inr s
         | Some f \<Rightarrow>
             if futures s f = Pending
             then Inr (s\<lparr>futures := (futures s)(f := Result (action = ''approve''))\<rparr>)
             else Inr s)
      else Inl ValueError)"

text \<open>An exception in a handler is caught by the Telegram library: the state stays.\<close>

definition ui_step_v3 :: "bot \<Rightarrow> string \<Rightarrow> bot" where
  "ui_step_v3 s data = (case handle_approval_v3 s data of Inl e \<Rightarrow> s | Inr s' \<Rightarrow> s')"

fun run_ui_v3 :: "string list \<Rightarrow> bot \<Rightarrow> bot" where
  "run_ui_v3 [] s = s"
| "run_ui_v3 (e # es) s = run_ui_v3 es (ui_step_v3 s e)"

definition ask_begin_v3 :: "bot \<Rightarrow> real \<Rightarrow> bot" where
  "ask_begin_v3 s t =
     (let request_id = request_id_of t; future = next_future s in
      s\<lparr>futures := (futures s)(future := Pending),
        next_future := future + 1,
        pending_approvals := (pending_approvals s)(request_id \<mapsto> future)\<rparr>)"

fun await_future_v3 ::
  "nat \<Rightarrow> real \<Rightarrow> (real \<times> string) list \<Rightarrow> bot \<Rightarrow> bot \<times> (real \<times> string) list" where
  "await_future_v3 f deadline [] s = (s, [])"
| "await_future_v3 f deadline ((tm, e) # es) s =
     (if futures s f = Pending \<and> tm < deadline then await_future_v3 f deadline es (ui_step_v3 s e)
      else (s, (tm, e) # es))"

definition ask_end_v3 :: "bot \<Rightarrow> string \<Rightarrow> nat \<Rightarrow> bool \<times> bot" where
  "ask_end_v3 s request_id future =
     (let s' = s\<lparr>pending_approvals := (pending_approvals s)(request_id := None)\<rparr>
      in case futures s future of
           Result b \<Rightarrow> (b, s')
         | Pending \<Rightarrow> (False, s'\<lparr>futures := (futures s)(future := Cancelled)\<rparr>)
         | Cancelled \<Rightarrow> (False, s'))"

text \<open>
  \<open>ask_human_approval\<close> of version 3: the request is sent outside of the \<open>try\<close> here
  too, and the wait lasts 3600 seconds.
\<close>

definition ask_human_approval_v3 ::
  "bot \<Rightarrow> real \<Rightarrow> bool \<Rightarrow> (real \<times> string) list
     \<Rightarrow> (error + bool) \<times> bot \<times> (real \<times> string) list" where
  "ask_human_approval_v3 s t delivered events =
     (let s1 = ask_begin_v3 s t in
      if \<not> delivered then (Inl TelegramError, s1, events)
      else
        (let (s2, rest) = await_future_v3 (next_future s) (t + 3600) events s1;
             (r, s3) = ask_end_v3 s2 (request_id_of t) (next_future s)
         in (Inr r, s3, rest)))"

section \<open>Reply dispatcher\<close>

text \<open>
  \<open>send_message\<close> types the text into the open conversation; whether it succeeds is
  given. A success is noted in \<open>sent\<close>.
\<close>

definition send_message :: "bot \<Rightarrow> string \<Rightarrow> string \<Rightarrow> bool \<Rightarrow> bot" where
  "send_message s thread_key text ok = (if ok then s\<lparr>sent := sent s @ [(thread_key, text)]\<rparr> else s)"

text \<open>
  The writes that follow a successful send, the same in \<open>drain_send_queue\<close> and in
  \<open>flush_debounced_threads\<close> of both versions: the seller's message is stored, the two
  caches are set and the thread state is written from the caches.
\<close>

definition record_sent ::
  "(string \<Rightarrow> string) \<Rightarrow> bot \<Rightarrow> string \<Rightarrow> string \<Rightarrow> string option \<Rightarrow> string \<Rightarrow> int \<Rightarrow> bot" where
  "record_sent sha s thread_key buyer_name href text now =
     (let rows = snd (db_insert_message sha (messages s) thread_key ''seller'' text now);
          sent_by_us = (last_sent_by_us s)(thread_key \<mapsto> text);
          seen_bottom = (last_seen_bottom s)(thread_key \<mapsto> text)
      in s\<lparr>messages := rows,
           last_sent_by_us := sent_by_us,
           last_seen_bottom := seen_bottom,
           thread_state :=
             db_upsert_thread_state (thread_state s) thread_key buyer_name href
               (seen_bottom thread_key) (last_seen_incoming s thread_key)
               (sent_by_us thread_key) now\<rparr>)"

text \<open>
  The body of the loop of \<open>drain_send_queue\<close> for one action. \<open>open_ok\<close> is the result
  of \<open>open_thread_by_href\<close> and \<open>send_ok\<close> the result of \<open>send_message\<close>.
\<close>

record send_env =
  open_ok :: bool
  send_ok :: bool

definition drain_action ::
  "(string \<Rightarrow> string) \<Rightarrow> send_env \<Rightarrow> int \<Rightarrow> bot \<Rightarrow> send_action \<Rightarrow> bot" where
  "drain_action sha env now s action =
     (if sa_type action \<noteq> ''send_custom'' then s
      else
        (let href = sa_href action;
             buyer_name = sa_buyer_name action;
             thread_key = sa_thread_key action;
             text = strip (sa_text action)
         in if \<not> (truthy href \<and> thread_key \<noteq> [] \<and> text \<noteq> []) then s
            else if \<not> open_ok env then s
            else
              (let s1 = send_message s thread_key text (send_ok env) in
               if send_ok env then
                 (let s2 = record_sent sha s1 thread_key buyer_name href text now in
                  case sa_meetup_log action of
                    None \<Rightarrow> s2
                  | Some time_text \<Rightarrow>
                      if time_text = [] then s2
                      else s2\<lparr>meetups := meetups s2 @
                             [(buyer_name, thread_key, time_text,
                               ''Custom reply (telegram) - meetup confirmed'')]\<rparr>)
               else s1)))"

fun drain_loop ::
  "(string \<Rightarrow> string) \<Rightarrow> (nat \<Rightarrow> send_env) \<Rightarrow> int \<Rightarrow> nat \<Rightarrow> send_action list \<Rightarrow> bot \<Rightarrow> bot" where
  "drain_loop sha env now i [] s = s"
| "drain_loop sha env now i (action # actions) s =
     drain_loop sha env now (i + 1) actions (drain_action sha (env i) now s action)"

text \<open>
  \<open>drain_send_queue\<close> takes the actions out of the queue one by one until it is empty;
  \<open>env i\<close> tells how the browser answers for the \<open>i\<close>-th of them.
\<close>

definition drain_send_queue :: "(string \<Rightarrow> string) \<Rightarrow> (nat \<Rightarrow> send_env) \<Rightarrow> int \<Rightarrow> bot \<Rightarrow> bot" where
  "drain_send_queue sha env now s = drain_loop sha env now 0 (send_queue s) (s\<lparr>send_queue := []\<rparr>)"


section \<open>Flushing a debounce window\<close>

record product_cfg =
  cfg_item_name :: string
  cfg_location :: string
  cfg_availability_note :: string

text \<open>What \<open>flush_debounced_threads\<close> of version 4 reads from the analysis, with its defaults.\<close>

record decision =
  d_category :: string
  d_requires_approval :: bool
  d_yes_reply :: string
  d_no_reply :: string
  d_intent :: string
  d_meetup_confirmed :: bool
  d_meetup_time_text :: string
  d_notes_for_owner :: string

text \<open>
  The right single quotation mark of the two replies written in the source is the three
  bytes of its UTF-8 encoding.
\<close>

definition default_yes_reply :: "product_cfg \<Rightarrow> string" where
  "default_yes_reply cfg =
     ''Hi! Yes, it'' @ [CHR 0xE2, CHR 0x80, CHR 0x99] @ ''s available. Pickup at '' @ cfg_location cfg
       @ ''. My availability is '' @ cfg_availability_note cfg @ ''. What time works for you?''"

definition default_no_reply :: string where
  "default_no_reply = ''Sorry, I can'' @ [CHR 0xE2, CHR 0x80, CHR 0x99] @ ''t do that.''"

definition decide :: "product_cfg \<Rightarrow> analysis \<Rightarrow> decision" where
  "decide cfg a =
     (let category = strip (or_str (category a) ''other'');
          requires_approval = (case requires_approval a of None \<Rightarrow> False | Some b \<Rightarrow> b);
          yes_reply = or_str (reply_if_accepted a) [];
          no_reply = or_str (reply_if_declined a) [];
          intent = (case intent_summary a of None \<Rightarrow> category | Some i \<Rightarrow> i);
          meetup_confirmed = (case meetup_confirmed a of None \<Rightarrow> False | Some b \<Rightarrow> b);
          meetup_time_text = strip (or_str (meetup_time_text a) []);
          notes_for_owner = strip (or_str (notes_for_owner a) [])
      in \<lparr>d_category = category,
          d_requires_approval =
            (if category = ''meetup_scheduling'' \<or> category = ''meetup_confirmation'' then True
             else requires_approval),
          d_yes_reply = (if yes_reply = [] then default_yes_reply cfg else yes_reply),
          d_no_reply = (if no_reply = [] then default_no_reply else no_reply),
          d_intent = intent,
          d_meetup_confirmed = meetup_confirmed,
          d_meetup_time_text = meetup_time_text,
          d_notes_for_owner = notes_for_owner\<rparr>)"

text \<open>
  How the body of the loop ends for one thread: it goes on to the next thread (at its end
  or by \<open>continue\<close>), it leaves the function by \<open>return\<close>, or an exception leaves it.
\<close>

datatype ctl = Continue | Return | Raise error

text \<open>
  What the world answers during one pass of the loop of version 4: the two results of
  \<open>open_thread_by_href\<close>, the decision engine, the clock of the event loop when the
  approval is asked for, the events of the operator from then on, the result of
  \<open>send_message\<close> and the wall clock. The pass calls the Telegram API three times, for
  the note for the owner, for the request and for the notice of a logged meetup;
  \<open>note_delivered\<close>, \<open>request_delivered\<close> and \<open>notice_delivered\<close> tell whether the call
  returns, and the exception of a call that does not leaves the pass.
\<close>

record flush_env =
  open1 :: bool
  post :: "string \<Rightarrow> nat \<Rightarrow> http_outcome"
  extract_json :: "string \<Rightarrow> analysis option"
  note_delivered :: bool
  loop_time :: real
  request_delivered :: bool
  ui_events :: "(real \<times> ui_event) list"
  open2 :: bool
  sender_ok :: bool
  wall_clock :: int
  notice_delivered :: bool

text \<open>The end of the pass, from \<open>if not final_reply\<close> on.\<close>

definition send_reply ::
  "(string \<Rightarrow> string) \<Rightarrow> flush_env \<Rightarrow> bot \<Rightarrow> string \<Rightarrow> string \<Rightarrow> string option \<Rightarrow> string
     \<Rightarrow> decision \<Rightarrow> ctl \<times> bot" where
  "send_reply sha env s tk buyer_name href final_reply d =
     (if final_reply = [] then (Return, s)
      else if truthy href \<and> \<not> open2 env then (Return, s)
      else
        (let s1 = send_message s tk final_reply (sender_ok env) in
         if sender_ok env then
           (let s2 = record_sent sha s1 tk buyer_name href final_reply (wall_clock env) in
            if d_meetup_confirmed d \<and> d_meetup_time_text d \<noteq> []
            then (if notice_delivered env then Continue else Raise TelegramError,
                  s2\<lparr>meetups := meetups s2 @
                    [(buyer_name, tk, d_meetup_time_text d,
                      ''Meetup confirmed (AI flagged) - sent reply'')]\<rparr>)
            else (Continue, s2))
         else (Continue, s1)))"

text \<open>
  The body of the second loop of \<open>flush_debounced_threads\<close> of version 4 for the thread
  \<open>tk\<close>. The events of the operator that the approval did not use are handed back.
\<close>

definition flush_one ::
  "(string \<Rightarrow> string) \<Rightarrow> product_cfg \<Rightarrow> flush_env \<Rightarrow> bot \<Rightarrow> string
     \<Rightarrow> ctl \<times> bot \<times> (real \<times> ui_event) list" where
  "flush_one sha cfg env s tk =
     (case map_of (pending_threads s) tk of
        None \<Rightarrow> (Continue, s, ui_events env)
      | Some info \<Rightarrow>
          (let s1 = s\<lparr>pending_threads := AList.delete tk (pending_threads s)\<rparr>;
               buyer_name = or_str (Some (w_buyer_name info)) ''Buyer'';
               href = w_href info
           in if truthy href \<and> \<not> open1 env then (Continue, s1, ui_events env)
              else
                (let buyer_msgs = db_get_recent_buyer_messages_since (messages s1) tk
                                    (since_ts info) MAX_BATCH_MESSAGES
                 in if buyer_msgs = [] then (Continue, s1, ui_events env)
                    else
                      (case analyze_message (post env) (extract_json env) of
                         Inl e \<Rightarrow> (Raise e, s1, ui_events env)
                       | Inr a \<Rightarrow>
                           (let d = decide cfg a;
                                meta = \<lparr>mt_thread_key = tk, mt_href = href,
                                        mt_buyer_name = buyer_name,
                                        mt_meetup_log =
                                          (if d_meetup_confirmed d \<and> d_meetup_time_text d \<noteq> []
                                           then Some (d_meetup_time_text d) else None)\<rparr>
                            in if d_requires_approval d then
                                 (if d_notes_for_owner d \<noteq> [] \<and> \<not> note_delivered env
                                  then (Raise TelegramError, s1, ui_events env)
                                  else
                                    (let (res, s2, rest) =
                                           ask_human_approval s1 (loop_time env) buyer_name
                                             (d_intent d) (d_yes_reply d) (d_no_reply d) meta
                                             (request_delivered env) (ui_events env)
                                     in case res of
                                          Inl e \<Rightarrow> (Raise e, s2, rest)
                                        | Inr user_approved \<Rightarrow>
                                            (let final_reply = (if user_approved then d_yes_reply d
                                                                else d_no_reply d);
                                                 (c, s3) = send_reply sha env s2 tk buyer_name href
                                                             final_reply d
                                             in (c, s3, rest))))
                               else
                                 (let (c, s3) = send_reply sha env s1 tk buyer_name href
                                                  (d_yes_reply d) d
                                  in (c, s3, ui_events env)))))))"

text \<open>
  The same pass in version 3. The analysis is read without a category, the replies may
  be missing, a missing final reply becomes a fixed text, and the conversation is not
  opened a second time before the send. The Telegram API is called for the request and,
  after a reply that needed approval has been sent and recorded, for a notice to the
  owner.
\<close>

record flush_env_v3 =
  open_v3 :: bool
  post_v3 :: "string \<Rightarrow> nat \<Rightarrow> http_outcome"
  extract_json_v3 :: "string \<Rightarrow> analysis option"
  loop_time_v3 :: real
  request_delivered_v3 :: bool
  taps_v3 :: "(real \<times> string) list"
  sender_ok_v3 :: bool
  wall_clock_v3 :: int
  notice_delivered_v3 :: bool

definition fallback_reply_v3 :: string where
  "fallback_reply_v3 =
     ''Hi! Yes, it'' @ [CHR 0xE2, CHR 0x80, CHR 0x99] @ ''s available. Pickup at ''
       @ ''Richmond Public Library main branch (Brighouse)''
       @ ''. Available '' @ ''Mon-Fri after 4pm'' @ ''. What time works for you?''"

definition requires_approval_v3 :: "analysis \<Rightarrow> bool" where
  "requires_approval_v3 a = (case requires_approval a of None \<Rightarrow> False | Some b \<Rightarrow> b)"

definition flush_one_v3 ::
  "(string \<Rightarrow> string) \<Rightarrow> flush_env_v3 \<Rightarrow> bot \<Rightarrow> string
     \<Rightarrow> ctl \<times> bot \<times> (real \<times> string) list" where
  "flush_one_v3 sha env s tk =
     (case map_of (pending_threads s) tk of
        None \<Rightarrow> (Continue, s, taps_v3 env)
      | Some info \<Rightarrow>
          (let s1 = s\<lparr>pending_threads := AList.delete tk (pending_threads s)\<rparr>;
               buyer_name = or_str (Some (w_buyer_name info)) ''Buyer'';
               href = w_href info
           in if truthy href \<and> \<not> open_v3 env then (Continue, s1, taps_v3 env)
              else
                (let buyer_msgs = db_get_recent_buyer_messages_since (messages s1) tk
                                    (since_ts info) MAX_BATCH_MESSAGES_v3
                 in if buyer_msgs = [] then (Continue, s1, taps_v3 env)
                    else
                      (case analyze_message_v3 (post_v3 env) (extract_json_v3 env) of
                         Inl e \<Rightarrow> (Raise e, s1, taps_v3 env)
                       | Inr a \<Rightarrow>
                           (let (res, s2, rest) =
                                  (if requires_approval_v3 a
                                   then ask_human_approval_v3 s1 (loop_time_v3 env)
                                          (request_delivered_v3 env) (taps_v3 env)
                                   else (Inr True, s1, taps_v3 env))
                            in case res of
                                 Inl e \<Rightarrow> (Raise e, s2, rest)
                               | Inr user_approved \<Rightarrow>
                                   (let chosen = (if requires_approval_v3 a
                                                  then (if user_approved then reply_if_accepted a
                                                        else reply_if_declined a)
                                                  else reply_if_accepted a);
                                        final_reply = or_str chosen fallback_reply_v3;
                                        s3 = send_message s2 tk final_reply (sender_ok_v3 env)
                                    in if sender_ok_v3 env
                                       then (if requires_approval_v3 a
                                                \<and> \<not> notice_delivered_v3 env
                                             then Raise TelegramError else Continue,
                                             record_sent sha s3 tk buyer_name href final_reply
                                               (wall_clock_v3 env), rest)
                                       else (Continue, s3, rest)))))))"


section \<open>Observing the conversations\<close>

text \<open>
  The debounce window of a thread is opened or refreshed at the end of the pass of
  \<open>run_bot\<close> over a row of the side bar, in both versions alike: a new window takes the
  wall clock as \<open>since_ts\<close>; an open one gets the new \<open>last_update\<close> and, where the new
  values are not empty, the new \<open>href\<close> and \<open>buyer_name\<close>.
\<close>

definition notify ::
  "(string \<times> window) list \<Rightarrow> string \<Rightarrow> string option \<Rightarrow> string \<Rightarrow> real \<Rightarrow> int
     \<Rightarrow> (string \<times> window) list" where
  "notify pending thread_key thread_href buyer_name loop_now ts_now =
     (case map_of pending thread_key of
        None \<Rightarrow>
          AList.update thread_key
            \<lparr>since_ts = ts_now, last_update = loop_now, w_href = thread_href,
             w_buyer_name = buyer_name\<rparr> pending
      | Some w \<Rightarrow>
          AList.update thread_key
            (w\<lparr>last_update := loop_now,
               w_href := py_or thread_href (w_href w),
               w_buyer_name := (if buyer_name = [] then w_buyer_name w else buyer_name)\<rparr>)
            pending)"

text \<open>
  What is seen in one row: the link of the row (\<open>click_thread_row\<close>), the name of the
  buyer, whether the scroller was found and brought to the bottom, and the bottom
  message with its side.
\<close>

datatype side = Incoming | Outgoing | Unknown

record observation =
  obs_href :: "string option"
  obs_buyer_name :: string
  obs_scroller :: bool
  obs_at_bottom :: bool
  obs_bottom_text :: "string option"
  obs_side :: side
  obs_loop_now :: real
  obs_ts_now :: int

definition thread_key_of :: "nat \<Rightarrow> observation \<Rightarrow> string" where
  "thread_key_of i obs =
     or_str (obs_href obs) (''row'' @ str_nat i @ '':'' @ obs_buyer_name obs)"

definition upsert_from_caches :: "bot \<Rightarrow> string \<Rightarrow> string \<Rightarrow> string option \<Rightarrow> int \<Rightarrow> bot" where
  "upsert_from_caches s thread_key buyer_name thread_href now =
     s\<lparr>thread_state :=
         db_upsert_thread_state (thread_state s) thread_key buyer_name thread_href
           (last_seen_bottom s thread_key) (last_seen_incoming s thread_key)
           (last_sent_by_us s thread_key) now\<rparr>"

text \<open>
  The body of the loop of \<open>run_bot\<close> over the rows, for row \<open>i\<close>, the same in both
  versions: the bottom message is stored first, then the two tests on the caches decide
  whether the window of the thread is touched.
\<close>

definition scan_row :: "(string \<Rightarrow> string) \<Rightarrow> bot \<Rightarrow> nat \<Rightarrow> observation \<Rightarrow> bot" where
  "scan_row sha s i obs =
     (let thread_href = obs_href obs;
          buyer_name = obs_buyer_name obs;
          thread_key = thread_key_of i obs;
          s1 = upsert_from_caches s thread_key buyer_name thread_href (obs_ts_now obs)
      in if \<not> obs_scroller obs then s1
         else if \<not> obs_at_bottom obs then s1
         else
           (case obs_bottom_text obs of
              None \<Rightarrow> s1
            | Some bottom_text \<Rightarrow>
                if bottom_text = [] then s1
                else
                  (let s2 =
                         (case obs_side obs of
                            Incoming \<Rightarrow>
                              s1\<lparr>messages := snd (db_insert_message sha (messages s1) thread_key
                                                    ''buyer'' bottom_text (obs_ts_now obs))\<rparr>
                          | Outgoing \<Rightarrow>
                              s1\<lparr>messages := snd (db_insert_message sha (messages s1) thread_key
                                                    ''seller'' bottom_text (obs_ts_now obs))\<rparr>
                          | Unknown \<Rightarrow> s1)
                   in if last_seen_bottom s2 thread_key = Some bottom_text then s2
                      else
                        (let s3 = s2\<lparr>last_seen_bottom :=
                                        (last_seen_bottom s2)(thread_key \<mapsto> bottom_text)\<rparr>;
                             s4 = upsert_from_caches s3 thread_key buyer_name thread_href
                                    (obs_ts_now obs)
                         in if obs_side obs \<noteq> Incoming then s4
                            else if last_seen_incoming s4 thread_key = Some bottom_text then s4
                            else
                              s4\<lparr>last_seen_incoming :=
                                    (last_seen_incoming s4)(thread_key \<mapsto> bottom_text),
                                 pending_threads :=
                                    notify (pending_threads s4) thread_key thread_href buyer_name
                                      (obs_loop_now obs) (obs_ts_now obs)\<rparr>))))"

text \<open>Repeated notifications, each for some thread.\<close>

fun notify_all ::
  "(string \<times> string option \<times> string \<times> real \<times> int) list \<Rightarrow> (string \<times> window) list
     \<Rightarrow> (string \<times> window) list" where
  "notify_all [] pending = pending"
| "notify_all ((thread_key, thread_href, buyer_name, loop_now, ts_now) # ns) pending =
     notify_all ns (notify pending thread_key thread_href buyer_name loop_now ts_now)"

text \<open>The state of a fresh process: empty tables, dictionaries and queue.\<close>

definition initial_bot :: bot where
  "initial_bot =
     \<lparr>messages = [], thread_state = Map.empty, pending_threads = [],
      last_sent_by_us = Map.empty, last_seen_bottom = Map.empty,
      last_seen_incoming = Map.empty, pending_approvals = Map.empty,
      approval_meta = Map.empty, custom_reply_wait = Map.empty, send_queue = [],
      futures = (\<lambda>f. Pending), next_future = 0, sent = [], meetups = []\<rparr>"

section \<open>A worked scenario\<close>

text \<open>
  The thread \<open>/t/1\<close> of the buyer Ann: her message is seen at the bottom of the
  conversation by a fresh process, which stores it and opens the debounce window. The
  decision engine then answers with the category \<open>meetup_scheduling\<close>, no need for
  approval and two replies. The digest is replaced by the identity, which keeps different
  short messages apart.
\<close>

definition ex_obs :: observation where
  "ex_obs =
     \<lparr>obs_href = Some ''/t/1'', obs_buyer_name = ''Ann'', obs_scroller = True,
      obs_at_bottom = True, obs_bottom_text = Some ''can we meet at 5'', obs_side = Incoming,
      obs_loop_now = 10, obs_ts_now = 1000\<rparr>"

definition ex_bot :: bot where
  "ex_bot = scan_row (\<lambda>x. x) initial_bot 0 ex_obs"

definition ex_cfg :: product_cfg where
  "ex_cfg =
     \<lparr>cfg_item_name = ''Brand new Type c-c cable non braided 1m'',
      cfg_location = ''Richmond Public Library main branch (Brighouse)'',
      cfg_availability_note = ''Mon-Fri after 4pm''\<rparr>"

definition ex_analysis :: analysis where
  "ex_analysis =
     \<lparr>category = Some ''meetup_scheduling'', requires_approval = Some False,
      intent_summary = Some ''asks to meet'', reply_if_accepted = Some ''Sure, 5pm works'',
      reply_if_declined = Some ''Sorry, not today'', meetup_confirmed = Some False,
      meetup_time_text = Some [], notes_for_owner = Some []\<rparr>"

definition ex_env :: "(real \<times> ui_event) list \<Rightarrow> bool \<Rightarrow> flush_env" where
  "ex_env events ok =
     \<lparr>open1 = True, post = (\<lambda>base attempt. Content ''{}''),
      extract_json = (\<lambda>content. Some ex_analysis), note_delivered = True, loop_time = 15,
      request_delivered = True, ui_events = events, open2 = True, sender_ok = ok,
      wall_clock = 1010, notice_delivered = True\<rparr>"

definition ex_env_v3 :: flush_env_v3 where
  "ex_env_v3 =
     \<lparr>open_v3 = True, post_v3 = (\<lambda>base attempt. Content ''{}''),
      extract_json_v3 = (\<lambda>content. Some ex_analysis), loop_time_v3 = 15,
      request_delivered_v3 = True, taps_v3 = [], sender_ok_v3 = True, wall_clock_v3 = 1010,
      notice_delivered_v3 = True\<rparr>"


section \<open>Properties of the state store\<close>

lemmas strip_eval = strip_def lstrip_def rstrip_def is_space1_def is_space2_def is_space3_def

lemma stored_zero:
  "stored rows tk mh = 0 \<longleftrightarrow> \<not> list_ex (\<lambda>r. m_thread_key r = tk \<and> m_hash r = mh) rows"
  by (induction rows) (auto simp: stored_def)

lemma stored_pos:
  "list_ex (\<lambda>r. m_thread_key r = tk \<and> m_hash r = mh) rows \<longleftrightarrow> 0 < stored rows tk mh"
  using stored_zero[of rows tk mh] by auto

lemma stored_append: "stored (xs @ ys) tk mh = stored xs tk mh + stored ys tk mh"
  by (simp add: stored_def)

lemma insert_rejects_blank:
  "strip text = [] \<Longrightarrow> db_insert_message sha rows tk role text now = (False, rows)"
  by (simp add: db_insert_message_def)

lemma insert_fresh:
  "strip text \<noteq> [] \<Longrightarrow> stored rows tk (hash_msg sha tk role (strip text)) = 0 \<Longrightarrow>
   db_insert_message sha rows tk role text now =
     (True, rows @ [\<lparr>m_thread_key = tk, m_hash = hash_msg sha tk role (strip text),
                      m_role = role, m_text = strip text, m_created_at = now\<rparr>])"
  by (simp add: db_insert_message_def Let_def stored_zero)

lemma insert_present:
  "0 < stored rows tk (hash_msg sha tk role (strip text)) \<Longrightarrow>
   db_insert_message sha rows tk role text now = (False, rows)"
  by (simp add: db_insert_message_def Let_def stored_pos)

text \<open>
  C3. A text that is empty after stripping is refused and nothing is stored. For any
  other text that is not stored yet, the first of two calls with the same thread, role
  and text returns true and appends one row, the second returns false and leaves the
  table as it is, and the table then holds exactly one row under the key of the message.
\<close>

theorem insert_message_idempotent:
  "(strip text = [] \<longrightarrow> db_insert_message sha rows tk role text now1 = (False, rows)) \<and>
   (strip text \<noteq> [] \<and> stored rows tk (hash_msg sha tk role (strip text)) = 0 \<longrightarrow>
      (let (r1, rows1) = db_insert_message sha rows tk role text now1;
           (r2, rows2) = db_insert_message sha rows1 tk role text now2
       in r1 \<and> \<not> r2 \<and> rows2 = rows1
          \<and> rows1 = rows @ [\<lparr>m_thread_key = tk, m_hash = hash_msg sha tk role (strip text),
                               m_role = role, m_text = strip text, m_created_at = now1\<rparr>]
          \<and> stored rows2 tk (hash_msg sha tk role (strip text)) = 1))"
proof (intro conjI impI)
  assume "strip text = []"
  then show "db_insert_message sha rows tk role text now1 = (False, rows)"
    by (rule insert_rejects_blank)
next
  let ?mh = "hash_msg sha tk role (strip text)"
  let ?row = "\<lparr>m_thread_key = tk, m_hash = ?mh, m_role = role, m_text = strip text,
                m_created_at = now1\<rparr>"
  assume a: "strip text \<noteq> [] \<and> stored rows tk ?mh = 0"
  have one: "db_insert_message sha rows tk role text now1 = (True, rows @ [?row])"
    using a by (simp add: insert_fresh)
  have cnt: "stored (rows @ [?row]) tk ?mh = 1"
    using a by (simp add: stored_append) (simp add: stored_def)
  have two: "db_insert_message sha (rows @ [?row]) tk role text now2 = (False, rows @ [?row])"
    using cnt by (simp add: insert_present)
  show "let (r1, rows1) = db_insert_message sha rows tk role text now1;
           (r2, rows2) = db_insert_message sha rows1 tk role text now2
       in r1 \<and> \<not> r2 \<and> rows2 = rows1 \<and> rows1 = rows @ [?row] \<and> stored rows2 tk ?mh = 1"
    using cnt by (simp add: one two)
qed

theorem insert_message_idempotent_witness:
  "db_insert_message (\<lambda>x. x) [] ''t1'' ''buyer'' '' hi '' 100 =
     (True, [\<lparr>m_thread_key = ''t1'', m_hash = ''t1|buyer|hi'', m_role = ''buyer'',
               m_text = ''hi'', m_created_at = 100\<rparr>])
   \<and> db_insert_message (\<lambda>x. x)
        [\<lparr>m_thread_key = ''t1'', m_hash = ''t1|buyer|hi'', m_role = ''buyer'',
               m_text = ''hi'', m_created_at = 100\<rparr>] ''t1'' ''buyer'' '' hi '' 101 =
     (False, [\<lparr>m_thread_key = ''t1'', m_hash = ''t1|buyer|hi'', m_role = ''buyer'',
               m_text = ''hi'', m_created_at = 100\<rparr>])"
  using insert_message_idempotent [of "'' hi ''" "\<lambda>x. x" "[]" "''t1''" "''buyer''" 100 101]
  by (simp add: strip_eval hash_msg_def stored_def split: prod.splits)

section \<open>Properties of the decision engine adapter\<close>

lemma attempts_unusable:
  "(\<And>k. unusable ex (responses k)) \<Longrightarrow> attempts responses ex ks = None"
proof (induction ks)
  case Nil
  show ?case by simp
next
  case (Cons k ks)
  from Cons.prems[of k] Cons.IH[OF Cons.prems] show ?case
    by (cases "responses k") (auto simp: unusable_def)
qed

lemma call_bases_unusable:
  "(\<And>b k. unusable ex (responses b k)) \<Longrightarrow> call_bases responses ex bs = Inl RuntimeError"
  by (induction bs) (simp_all add: attempts_unusable del: attempts.simps)

text \<open>
  C7. \<open>analyze_message\<close> of version 4 always returns an analysis and never an error.
  Whenever \<open>_call_proxy_chat\<close> fails, and so whenever every request fails or brings
  malformed output, the result is the fixed fallback analysis, whose \<open>requires_approval\<close>
  is true and which the flush reads as requiring approval.
\<close>

theorem analyze_message_never_raises:
  "(\<exists>a. analyze_message responses ex = Inr a)
   \<and> (call_proxy_chat responses ex = Inl e \<longrightarrow>
        analyze_message responses ex = Inr fallback_analysis)
   \<and> ((\<forall>b k. unusable ex (responses b k)) \<longrightarrow>
        analyze_message responses ex = Inr fallback_analysis)
   \<and> requires_approval fallback_analysis = Some True
   \<and> d_requires_approval (decide cfg fallback_analysis)"
proof (intro conjI impI)
  show "\<exists>a. analyze_message responses ex = Inr a"
    by (cases "call_proxy_chat responses ex") (simp_all add: analyze_message_def)
  show "analyze_message responses ex = Inr fallback_analysis"
    if "call_proxy_chat responses ex = Inl e"
    using that by (simp add: analyze_message_def)
  show "analyze_message responses ex = Inr fallback_analysis"
    if "\<forall>b k. unusable ex (responses b k)"
    using that by (simp add: analyze_message_def call_proxy_chat_def call_bases_unusable)
  show "requires_approval fallback_analysis = Some True"
    by (simp add: fallback_analysis_def)
  show "d_requires_approval (decide cfg fallback_analysis)"
    by (simp add: fallback_analysis_def decide_def Let_def)
qed

theorem analyze_message_never_raises_witness:
  "analyze_message (\<lambda>b k. RequestFailed) (\<lambda>c. None) = Inr fallback_analysis
   \<and> call_proxy_chat (\<lambda>b k. RequestFailed) (\<lambda>c. None) = Inl RuntimeError
   \<and> analyze_message (\<lambda>b k. if k < 3 then Status503 else Content ''x'') (\<lambda>c. None)
       = Inr fallback_analysis"
  using analyze_message_never_raises [of "\<lambda>b k. RequestFailed" "\<lambda>c. None" RuntimeError]
    analyze_message_never_raises
      [of "\<lambda>b k. if k < 3 then Status503 else Content ''x''" "\<lambda>c. None" RuntimeError]
  by (simp add: call_proxy_chat_def PROXY_BASE_URLS_def unusable_def)

section \<open>The worked scenario, evaluated\<close>

lemmas scan_eval = scan_row_def thread_key_of_def upsert_from_caches_def db_upsert_thread_state_def
  db_insert_message_def hash_msg_def notify_def or_str_def truthy_def py_or_def Let_def

lemma ex_bot_eq:
  "ex_bot =
     \<lparr>messages = [\<lparr>m_thread_key = ''/t/1'', m_hash = ''/t/1|buyer|can we meet at 5'',
                    m_role = ''buyer'', m_text = ''can we meet at 5'', m_created_at = 1000\<rparr>],
      thread_state = [''/t/1'' \<mapsto>
         \<lparr>t_buyer_name = ''Ann'', t_thread_href = Some ''/t/1'',
          t_last_seen_bottom = Some ''can we meet at 5'', t_last_seen_incoming = None,
          t_last_sent_by_us = None, t_updated_at = 1000\<rparr>],
      pending_threads = [(''/t/1'', \<lparr>since_ts = 1000, last_update = 10, w_href = Some ''/t/1'',
                                     w_buyer_name = ''Ann''\<rparr>)],
      last_sent_by_us = Map.empty, last_seen_bottom = [''/t/1'' \<mapsto> ''can we meet at 5''],
      last_seen_incoming = [''/t/1'' \<mapsto> ''can we meet at 5''], pending_approvals = Map.empty,
      approval_meta = Map.empty, custom_reply_wait = Map.empty, send_queue = [],
      futures = (\<lambda>f. Pending), next_future = 0, sent = [], meetups = []\<rparr>"
  by (simp add: ex_bot_def ex_obs_def initial_bot_def scan_eval strip_eval)

lemmas flush_v3_eval = flush_one_v3_def ex_env_v3_def ex_analysis_def
  db_get_recent_buyer_messages_since_def MAX_BATCH_MESSAGES_v3_def analyze_message_v3_def
  call_proxy_chat_def PROXY_BASE_URLS_def requires_approval_v3_def or_str_def truthy_def
  send_message_def record_sent_def db_insert_message_def hash_msg_def
  db_upsert_thread_state_def strip_eval Let_def

lemmas flush_eval = flush_one_def ex_env_def ex_analysis_def ex_cfg_def decide_def
  db_get_recent_buyer_messages_since_def MAX_BATCH_MESSAGES_def analyze_message_def
  call_proxy_chat_def PROXY_BASE_URLS_def or_str_def truthy_def send_message_def
  record_sent_def send_reply_def db_insert_message_def hash_msg_def
  db_upsert_thread_state_def strip_eval Let_def ask_human_approval_def ask_begin_def
  ask_end_def request_id_of_def py_int_def str_int_def str_nat.simps digit_char_def
  ui_step_def handle_approval_def handle_admin_text_def resolve_pending_def split_once_def
  default_yes_reply_def default_no_reply_def


section \<open>The approval override for meetups\<close>

lemma strip_Nil [simp]: "strip [] = []"
  by (simp add: strip_def lstrip_def rstrip_def)

lemma decide_meetup:
  assumes "category a = Some c"
    and "strip c = ''meetup_scheduling'' \<or> strip c = ''meetup_confirmation''"
  shows "d_requires_approval (decide cfg a)"
proof -
  have "c \<noteq> []" using assms(2) by auto
  then have "or_str (category a) ''other'' = c" using assms(1) by (simp add: or_str_def)
  then show ?thesis using assms(2) by (auto simp: decide_def Let_def)
qed

text \<open>
  C2, as it fails: in version 3 the flush reads no category. With the analysis of the
  scenario, whose category is \<open>meetup_scheduling\<close> and whose \<open>requires_approval\<close> is false,
  and with no tap of the operator, the suggested reply is sent and no approval request has
  been created.
\<close>

theorem v3_meetup_auto_reply:
  "category ex_analysis = Some ''meetup_scheduling''
   \<and> sent (fst (snd (flush_one_v3 (\<lambda>x. x) ex_env_v3 ex_bot ''/t/1'')))
       = [(''/t/1'', ''Sure, 5pm works'')]
   \<and> next_future (fst (snd (flush_one_v3 (\<lambda>x. x) ex_env_v3 ex_bot ''/t/1''))) = 0
   \<and> taps_v3 ex_env_v3 = []"
  by (simp add: ex_bot_eq flush_v3_eval)

text \<open>
  C2, amended: in version 4, an analysis whose category, stripped, is \<open>meetup_scheduling\<close>
  or \<open>meetup_confirmation\<close> is read as requiring approval whatever its
  \<open>requires_approval\<close> says, and a flush that reaches the decision with such an analysis
  is the pass through \<open>ask_human_approval\<close>: the reply sent is chosen by its result, and
  nothing is sent when the note for the owner or the request cannot be delivered.
\<close>

theorem meetup_category_forces_approval:
  assumes "category a = Some c"
    and "strip c = ''meetup_scheduling'' \<or> strip c = ''meetup_confirmation''"
  shows "d_requires_approval (decide cfg a)
    \<and> (map_of (pending_threads s) tk = Some info
         \<and> (if truthy (w_href info) then open1 env else True)
         \<and> db_get_recent_buyer_messages_since (messages s) tk (since_ts info) MAX_BATCH_MESSAGES \<noteq> []
         \<and> analyze_message (post env) (extract_json env) = Inr a
       \<longrightarrow> flush_one sha cfg env s tk =
           (let s1 = s\<lparr>pending_threads := AList.delete tk (pending_threads s)\<rparr>;
                buyer_name = or_str (Some (w_buyer_name info)) ''Buyer'';
                d = decide cfg a;
                meta = \<lparr>mt_thread_key = tk, mt_href = w_href info, mt_buyer_name = buyer_name,
                        mt_meetup_log = (if d_meetup_confirmed d \<and> d_meetup_time_text d \<noteq> []
                                         then Some (d_meetup_time_text d) else None)\<rparr>
            in if d_notes_for_owner d \<noteq> [] \<and> \<not> note_delivered env
               then (Raise TelegramError, s1, ui_events env)
               else
                 (let (res, s2, rest) =
                        ask_human_approval s1 (loop_time env) buyer_name (d_intent d)
                          (d_yes_reply d) (d_no_reply d) meta (request_delivered env)
                          (ui_events env)
                  in case res of
                       Inl e \<Rightarrow> (Raise e, s2, rest)
                     | Inr user_approved \<Rightarrow>
                         (let (c, s3) = send_reply sha env s2 tk buyer_name (w_href info)
                                          (if user_approved then d_yes_reply d
                                           else d_no_reply d) d
                          in (c, s3, rest)))))"
proof (intro conjI impI)
  show ra: "d_requires_approval (decide cfg a)" using assms by (rule decide_meetup)
  assume h: "map_of (pending_threads s) tk = Some info
         \<and> (if truthy (w_href info) then open1 env else True)
         \<and> db_get_recent_buyer_messages_since (messages s) tk (since_ts info) MAX_BATCH_MESSAGES \<noteq> []
         \<and> analyze_message (post env) (extract_json env) = Inr a"
  then have o: "truthy (w_href info) \<Longrightarrow> open1 env" by (auto split: if_splits)
  show "flush_one sha cfg env s tk =
           (let s1 = s\<lparr>pending_threads := AList.delete tk (pending_threads s)\<rparr>;
                buyer_name = or_str (Some (w_buyer_name info)) ''Buyer'';
                d = decide cfg a;
                meta = \<lparr>mt_thread_key = tk, mt_href = w_href info, mt_buyer_name = buyer_name,
                        mt_meetup_log = (if d_meetup_confirmed d \<and> d_meetup_time_text d \<noteq> []
                                         then Some (d_meetup_time_text d) else None)\<rparr>
            in if d_notes_for_owner d \<noteq> [] \<and> \<not> note_delivered env
               then (Raise TelegramError, s1, ui_events env)
               else
                 (let (res, s2, rest) =
                        ask_human_approval s1 (loop_time env) buyer_name (d_intent d)
                          (d_yes_reply d) (d_no_reply d) meta (request_delivered env)
                          (ui_events env)
                  in case res of
                       Inl e \<Rightarrow> (Raise e, s2, rest)
                     | Inr user_approved \<Rightarrow>
                         (let (c, s3) = send_reply sha env s2 tk buyer_name (w_href info)
                                          (if user_approved then d_yes_reply d
                                           else d_no_reply d) d
                          in (c, s3, rest))))"
  proof (cases "truthy (w_href info)")
    case True
    with o have "open1 env" by simp
    with h ra True show ?thesis unfolding flush_one_def Let_def by simp
  next
    case False
    with h ra show ?thesis unfolding flush_one_def Let_def by simp
  qed
qed

theorem meetup_category_forces_approval_witness:
  "d_requires_approval (decide ex_cfg ex_analysis)
   \<and> requires_approval ex_analysis = Some False
   \<and> sent (fst (snd (flush_one (\<lambda>x. x) ex_cfg (ex_env [] True) ex_bot ''/t/1'')))
       = [(''/t/1'', ''Sorry, not today'')]
   \<and> next_future (fst (snd (flush_one (\<lambda>x. x) ex_cfg (ex_env [] True) ex_bot ''/t/1''))) = 1"
  using meetup_category_forces_approval
     [where a = ex_analysis and c = "''meetup_scheduling''" and s = ex_bot and tk = "''/t/1''"
        and info = "\<lparr>since_ts = 1000, last_update = 10, w_href = Some ''/t/1'',
                     w_buyer_name = ''Ann''\<rparr>"
        and env = "ex_env [] True" and cfg = ex_cfg and sha = "\<lambda>x. x"]
  by (simp add: ex_bot_eq flush_eval)

section \<open>The debounce window\<close>

lemma notify_open:
  assumes "map_of pending tk = Some w"
  shows "map_of (notify pending tk href bn lnow tnow) tk =
           Some (w\<lparr>last_update := lnow, w_href := py_or href (w_href w),
                   w_buyer_name := (if bn = [] then w_buyer_name w else bn)\<rparr>)"
  using assms by (simp add: notify_def update_conv')

lemma notify_other:
  assumes "tk' \<noteq> tk"
  shows "map_of (notify pending tk' href bn lnow tnow) tk = map_of pending tk"
  using assms by (simp add: notify_def update_conv' split: option.splits)

lemma notify_since_ts:
  assumes "map_of pending tk = Some w"
  shows "\<exists>w'. map_of (notify pending tk' href bn lnow tnow) tk = Some w' \<and> since_ts w' = since_ts w"
proof (cases "tk' = tk")
  case True
  then show ?thesis using notify_open[OF assms] by simp
next
  case False
  then show ?thesis using notify_other[of tk' tk] assms by simp
qed

lemma notify_all_since_ts:
  assumes "map_of pending tk = Some w"
  shows "\<exists>w'. map_of (notify_all ns pending) tk = Some w' \<and> since_ts w' = since_ts w"
  using assms
proof (induction ns arbitrary: pending w)
  case Nil
  then show ?case by simp
next
  case (Cons n ns)
  obtain tk' href bn lnow tnow where n: "n = (tk', href, bn, lnow, tnow)" by (cases n) auto
  from notify_since_ts[OF Cons.prems, of tk' href bn lnow tnow]
  obtain w1 where w1: "map_of (notify pending tk' href bn lnow tnow) tk = Some w1"
    and s1: "since_ts w1 = since_ts w" by blast
  from Cons.IH[OF w1] s1 show ?case by (simp add: n)
qed

lemma scan_row_pending:
  "pending_threads (scan_row sha s i obs) = pending_threads s
   \<or> pending_threads (scan_row sha s i obs) =
        notify (pending_threads s) (thread_key_of i obs) (obs_href obs) (obs_buyer_name obs)
          (obs_loop_now obs) (obs_ts_now obs)"
  by (simp add: scan_row_def upsert_from_caches_def Let_def split: option.splits side.splits)

text \<open>
  C8. While a window is open for a thread, a notification for that thread keeps the
  window and changes only \<open>last_update\<close>, \<open>href\<close> (when the new one is not empty) and
  \<open>buyer_name\<close> (when the new one is not empty); a notification for any thread, any
  sequence of notifications, and a whole pass of \<open>run_bot\<close> over a row leave \<open>since_ts\<close>
  of the window as it was.
\<close>

theorem notify_keeps_since_ts:
  assumes "map_of pending tk = Some w"
  shows "map_of (notify pending tk href bn lnow tnow) tk =
           Some (w\<lparr>last_update := lnow, w_href := py_or href (w_href w),
                   w_buyer_name := (if bn = [] then w_buyer_name w else bn)\<rparr>)
    \<and> map_option since_ts (map_of (notify pending tk' href bn lnow tnow) tk) = Some (since_ts w)
    \<and> map_option since_ts (map_of (notify_all ns pending) tk) = Some (since_ts w)
    \<and> (pending_threads s = pending \<longrightarrow>
         map_option since_ts (map_of (pending_threads (scan_row sha s i obs)) tk) = Some (since_ts w))"
proof (intro conjI impI)
  show "map_of (notify pending tk href bn lnow tnow) tk =
           Some (w\<lparr>last_update := lnow, w_href := py_or href (w_href w),
                   w_buyer_name := (if bn = [] then w_buyer_name w else bn)\<rparr>)"
    using assms by (rule notify_open)
  show "map_option since_ts (map_of (notify pending tk' href bn lnow tnow) tk) = Some (since_ts w)"
    using notify_since_ts[OF assms, of tk' href bn lnow tnow] by auto
  show "map_option since_ts (map_of (notify_all ns pending) tk) = Some (since_ts w)"
    using notify_all_since_ts[OF assms, of ns] by auto
  assume p: "pending_threads s = pending"
  show "map_option since_ts (map_of (pending_threads (scan_row sha s i obs)) tk) = Some (since_ts w)"
    using scan_row_pending[of sha s i obs] assms p
      notify_since_ts[OF assms, of "thread_key_of i obs" "obs_href obs" "obs_buyer_name obs"
        "obs_loop_now obs" "obs_ts_now obs"]
    by auto
qed

theorem notify_keeps_since_ts_witness:
  "map_of (pending_threads ex_bot) ''/t/1''
     = Some \<lparr>since_ts = 1000, last_update = 10, w_href = Some ''/t/1'', w_buyer_name = ''Ann''\<rparr>
   \<and> map_of (notify (pending_threads ex_bot) ''/t/1'' None [] 12 1005) ''/t/1''
     = Some \<lparr>since_ts = 1000, last_update = 12, w_href = Some ''/t/1'', w_buyer_name = ''Ann''\<rparr>
   \<and> map_option since_ts
       (map_of (notify_all [(''/t/1'', Some ''/t/1b'', ''Ann B'', 12, 1005),
                            (''/t/2'', Some ''/t/2'', ''Bob'', 13, 1006),
                            (''/t/1'', None, [], 14, 1007)] (pending_threads ex_bot)) ''/t/1'')
     = Some 1000"
  using notify_keeps_since_ts
     [where pending = "pending_threads ex_bot" and tk = "''/t/1''"
        and w = "\<lparr>since_ts = 1000, last_update = 10, w_href = Some ''/t/1'', w_buyer_name = ''Ann''\<rparr>"
        and href = None and bn = "[]" and lnow = 12 and tnow = 1005
        and ns = "[(''/t/1'', Some ''/t/1b'', ''Ann B'', 12, 1005),
                            (''/t/2'', Some ''/t/2'', ''Bob'', 13, 1006),
                            (''/t/1'', None, [], 14, 1007)]"]
  by (simp add: ex_bot_eq py_or_def truthy_def)

section \<open>The jitter lock\<close>

lemma scan_row_locked:
  assumes "obs_bottom_text obs = Some bottom_text"
    and "last_seen_bottom s (thread_key_of i obs) = Some bottom_text"
  shows "scan_row sha s i obs =
     (let s1 = upsert_from_caches s (thread_key_of i obs) (obs_buyer_name obs) (obs_href obs)
                 (obs_ts_now obs)
      in if obs_scroller obs \<and> obs_at_bottom obs \<and> bottom_text \<noteq> [] then
           (case obs_side obs of
              Incoming \<Rightarrow>
                s1\<lparr>messages := snd (db_insert_message sha (messages s) (thread_key_of i obs)
                                      ''buyer'' bottom_text (obs_ts_now obs))\<rparr>
            | Outgoing \<Rightarrow>
                s1\<lparr>messages := snd (db_insert_message sha (messages s) (thread_key_of i obs)
                                      ''seller'' bottom_text (obs_ts_now obs))\<rparr>
            | Unknown \<Rightarrow> s1)
         else s1)"
  using assms
  by (simp add: scan_row_def upsert_from_caches_def Let_def split: side.splits)

text \<open>
  C9, as it fails: the bottom message is stored before the cache is compared. A fresh
  process sees the message of the scenario with an unknown side, which sets the cache and
  stores nothing; at the next pass the same text is seen as incoming: it equals the cached
  value, a row is stored for it all the same, and no window is opened.
\<close>

theorem unchanged_bottom_still_inserts:
  "last_seen_bottom (scan_row (\<lambda>x. x) initial_bot 0 (ex_obs\<lparr>obs_side := Unknown\<rparr>))
       (thread_key_of 0 ex_obs) = obs_bottom_text ex_obs
   \<and> messages (scan_row (\<lambda>x. x) initial_bot 0 (ex_obs\<lparr>obs_side := Unknown\<rparr>)) = []
   \<and> messages (scan_row (\<lambda>x. x)
                  (scan_row (\<lambda>x. x) initial_bot 0 (ex_obs\<lparr>obs_side := Unknown\<rparr>)) 0 ex_obs)
       = [\<lparr>m_thread_key = ''/t/1'', m_hash = ''/t/1|buyer|can we meet at 5'',
            m_role = ''buyer'', m_text = ''can we meet at 5'', m_created_at = 1000\<rparr>]
   \<and> pending_threads (scan_row (\<lambda>x. x)
                  (scan_row (\<lambda>x. x) initial_bot 0 (ex_obs\<lparr>obs_side := Unknown\<rparr>)) 0 ex_obs)
       = []"
  by (simp add: ex_obs_def initial_bot_def scan_eval strip_eval)

text \<open>
  C9, amended: in a pass in which the bottom text seen for a thread equals the cached
  \<open>last_seen_bottom\<close> of the thread, no window is opened or refreshed and the three caches
  stay as they are; the stored rows are the result of the insert for the side that was
  seen, attempted before the comparison, so they are unchanged when the side is unknown
  or when the row of that thread, role and text is stored already.
\<close>

theorem unchanged_bottom_suppression:
  assumes "obs_bottom_text obs = Some bottom_text"
    and "last_seen_bottom s (thread_key_of i obs) = Some bottom_text"
  shows "pending_threads (scan_row sha s i obs) = pending_threads s
    \<and> last_seen_bottom (scan_row sha s i obs) = last_seen_bottom s
    \<and> last_seen_incoming (scan_row sha s i obs) = last_seen_incoming s
    \<and> last_sent_by_us (scan_row sha s i obs) = last_sent_by_us s
    \<and> messages (scan_row sha s i obs) =
        (if obs_scroller obs \<and> obs_at_bottom obs then
           (case obs_side obs of
              Incoming \<Rightarrow> snd (db_insert_message sha (messages s) (thread_key_of i obs)
                                 ''buyer'' bottom_text (obs_ts_now obs))
            | Outgoing \<Rightarrow> snd (db_insert_message sha (messages s) (thread_key_of i obs)
                                 ''seller'' bottom_text (obs_ts_now obs))
            | Unknown \<Rightarrow> messages s)
         else messages s)
    \<and> (obs_side obs = Unknown
        \<or> 0 < stored (messages s) (thread_key_of i obs)
                (hash_msg sha (thread_key_of i obs)
                   (if obs_side obs = Incoming then ''buyer'' else ''seller'') (strip bottom_text))
        \<longrightarrow> messages (scan_row sha s i obs) = messages s)"
proof -
  note eq = scan_row_locked[OF assms, of sha]
  have blank: "bottom_text = [] \<Longrightarrow>
      snd (db_insert_message sha (messages s) (thread_key_of i obs) role bottom_text
             (obs_ts_now obs)) = messages s" for role
    by (simp add: db_insert_message_def)
  have p: "pending_threads (scan_row sha s i obs) = pending_threads s"
    unfolding eq by (simp add: upsert_from_caches_def Let_def split: side.splits)
  have b: "last_seen_bottom (scan_row sha s i obs) = last_seen_bottom s"
    unfolding eq by (simp add: upsert_from_caches_def Let_def split: side.splits)
  have c: "last_seen_incoming (scan_row sha s i obs) = last_seen_incoming s"
    unfolding eq by (simp add: upsert_from_caches_def Let_def split: side.splits)
  have u: "last_sent_by_us (scan_row sha s i obs) = last_sent_by_us s"
    unfolding eq by (simp add: upsert_from_caches_def Let_def split: side.splits)
  have m: "messages (scan_row sha s i obs) =
        (if obs_scroller obs \<and> obs_at_bottom obs then
           (case obs_side obs of
              Incoming \<Rightarrow> snd (db_insert_message sha (messages s) (thread_key_of i obs)
                                 ''buyer'' bottom_text (obs_ts_now obs))
            | Outgoing \<Rightarrow> snd (db_insert_message sha (messages s) (thread_key_of i obs)
                                 ''seller'' bottom_text (obs_ts_now obs))
            | Unknown \<Rightarrow> messages s)
         else messages s)"
    unfolding eq using blank
    by (cases "bottom_text = []") (simp_all add: upsert_from_caches_def Let_def split: side.splits)
  have k: "messages (scan_row sha s i obs) = messages s"
    if "obs_side obs = Unknown
        \<or> 0 < stored (messages s) (thread_key_of i obs)
                (hash_msg sha (thread_key_of i obs)
                   (if obs_side obs = Incoming then ''buyer'' else ''seller'') (strip bottom_text))"
  proof (cases "obs_side obs")
    case Unknown
    then show ?thesis unfolding m by simp
  next
    case Incoming
    with that have "0 < stored (messages s) (thread_key_of i obs)
                (hash_msg sha (thread_key_of i obs) ''buyer'' (strip bottom_text))" by simp
    then show ?thesis unfolding m using Incoming by (simp add: insert_present)
  next
    case Outgoing
    with that have "0 < stored (messages s) (thread_key_of i obs)
                (hash_msg sha (thread_key_of i obs) ''seller'' (strip bottom_text))" by simp
    then show ?thesis unfolding m using Outgoing by (simp add: insert_present)
  qed
  from p b c u m k show ?thesis by blast
qed

theorem unchanged_bottom_suppression_witness:
  "obs_bottom_text ex_obs = Some ''can we meet at 5''
   \<and> last_seen_bottom ex_bot (thread_key_of 0 ex_obs) = Some ''can we meet at 5''
   \<and> pending_threads (scan_row (\<lambda>x. x) ex_bot 0 ex_obs) = pending_threads ex_bot
   \<and> messages (scan_row (\<lambda>x. x) ex_bot 0 ex_obs) = messages ex_bot"
  using unchanged_bottom_suppression
     [where obs = ex_obs and bottom_text = "''can we meet at 5''" and s = ex_bot and i = 0
        and sha = "\<lambda>x. x"]
  by (simp add: ex_bot_eq ex_obs_def scan_eval stored_def strip_eval)

section \<open>What the approval coordinator leaves alone\<close>

lemma resolve_pending_store:
  "messages (resolve_pending s rid v) = messages s
   \<and> thread_state (resolve_pending s rid v) = thread_state s
   \<and> last_sent_by_us (resolve_pending s rid v) = last_sent_by_us s
   \<and> last_seen_bottom (resolve_pending s rid v) = last_seen_bottom s
   \<and> last_seen_incoming (resolve_pending s rid v) = last_seen_incoming s
   \<and> sent (resolve_pending s rid v) = sent s
   \<and> pending_threads (resolve_pending s rid v) = pending_threads s
   \<and> pending_approvals (resolve_pending s rid v) = pending_approvals s
   \<and> approval_meta (resolve_pending s rid v) = approval_meta s
   \<and> next_future (resolve_pending s rid v) = next_future s"
  by (simp add: resolve_pending_def split: option.splits)

lemma ui_step_store:
  "messages (ui_step s e) = messages s
   \<and> thread_state (ui_step s e) = thread_state s
   \<and> last_sent_by_us (ui_step s e) = last_sent_by_us s
   \<and> last_seen_bottom (ui_step s e) = last_seen_bottom s
   \<and> last_seen_incoming (ui_step s e) = last_seen_incoming s
   \<and> sent (ui_step s e) = sent s
   \<and> pending_threads (ui_step s e) = pending_threads s
   \<and> pending_approvals (ui_step s e) = pending_approvals s
   \<and> approval_meta (ui_step s e) = approval_meta s
   \<and> next_future (ui_step s e) = next_future s"
  by (cases e)
     (simp_all add: ui_step_def handle_approval_def handle_admin_text_def Let_def
        resolve_pending_store split: option.splits prod.splits)

lemma await_future_store:
  "messages (fst (await_future f deadline es s)) = messages s
   \<and> thread_state (fst (await_future f deadline es s)) = thread_state s
   \<and> last_sent_by_us (fst (await_future f deadline es s)) = last_sent_by_us s
   \<and> last_seen_bottom (fst (await_future f deadline es s)) = last_seen_bottom s
   \<and> last_seen_incoming (fst (await_future f deadline es s)) = last_seen_incoming s
   \<and> sent (fst (await_future f deadline es s)) = sent s
   \<and> pending_threads (fst (await_future f deadline es s)) = pending_threads s"
  by (induction f deadline es s rule: await_future.induct) (simp_all add: ui_step_store)

lemma ask_end_store:
  "messages (snd (ask_end s rid f)) = messages s
   \<and> thread_state (snd (ask_end s rid f)) = thread_state s
   \<and> last_sent_by_us (snd (ask_end s rid f)) = last_sent_by_us s
   \<and> last_seen_bottom (snd (ask_end s rid f)) = last_seen_bottom s
   \<and> last_seen_incoming (snd (ask_end s rid f)) = last_seen_incoming s
   \<and> sent (snd (ask_end s rid f)) = sent s
   \<and> pending_threads (snd (ask_end s rid f)) = pending_threads s"
  by (simp add: ask_end_def Let_def split: fut.splits)

lemma ask_human_approval_store:
  "messages (fst (snd (ask_human_approval s t buyer intent yes_text no_text m dl es))) = messages s
   \<and> thread_state (fst (snd (ask_human_approval s t buyer intent yes_text no_text m dl es)))
       = thread_state s
   \<and> last_sent_by_us (fst (snd (ask_human_approval s t buyer intent yes_text no_text m dl es)))
       = last_sent_by_us s
   \<and> last_seen_bottom (fst (snd (ask_human_approval s t buyer intent yes_text no_text m dl es)))
       = last_seen_bottom s
   \<and> last_seen_incoming (fst (snd (ask_human_approval s t buyer intent yes_text no_text m dl es)))
       = last_seen_incoming s
   \<and> sent (fst (snd (ask_human_approval s t buyer intent yes_text no_text m dl es))) = sent s
   \<and> pending_threads (fst (snd (ask_human_approval s t buyer intent yes_text no_text m dl es)))
       = pending_threads s"
proof -
  let ?s1 = "ask_begin s t buyer intent yes_text no_text m"
  let ?a = "await_future (next_future s) (t + 3600) es ?s1"
  have s': "fst (snd (ask_human_approval s t buyer intent yes_text no_text m dl es))
              = (if dl then snd (ask_end (fst ?a) (request_id_of t) (next_future s)) else ?s1)"
    by (simp add: ask_human_approval_def Let_def split_beta)
  have b: "messages ?s1 = messages s \<and> thread_state ?s1 = thread_state s
     \<and> last_sent_by_us ?s1 = last_sent_by_us s \<and> last_seen_bottom ?s1 = last_seen_bottom s
     \<and> last_seen_incoming ?s1 = last_seen_incoming s \<and> sent ?s1 = sent s
     \<and> pending_threads ?s1 = pending_threads s"
    by (simp add: ask_begin_def Let_def)
  show ?thesis
    unfolding s' using b
    by (simp add: ask_end_store await_future_store)
qed


section \<open>Failed sends\<close>

lemma send_reply_failed:
  "\<not> sender_ok env \<Longrightarrow> snd (send_reply sha env s tk buyer_name href final_reply d) = s"
  by (simp add: send_reply_def send_message_def Let_def)

lemma drain_action_failed:
  "\<not> send_ok senv \<Longrightarrow> drain_action sha senv now s action = s"
  by (simp add: drain_action_def send_message_def Let_def)

lemma flush_one_state:
  "fst (snd (flush_one sha cfg env s tk)) = s
   \<or> fst (snd (flush_one sha cfg env s tk)) = s\<lparr>pending_threads := AList.delete tk (pending_threads s)\<rparr>
   \<or> (\<exists>s0 href fr d bn.
         fst (snd (flush_one sha cfg env s tk)) = snd (send_reply sha env s0 tk bn href fr d)
         \<and> (s0 = s\<lparr>pending_threads := AList.delete tk (pending_threads s)\<rparr>
              \<or> (\<exists>t i y n m. s0 = fst (snd (ask_human_approval
                      (s\<lparr>pending_threads := AList.delete tk (pending_threads s)\<rparr>)
                      t bn i y n m (request_delivered env) (ui_events env))))))
   \<or> (\<exists>t bn i y n m.
         fst (snd (flush_one sha cfg env s tk)) = fst (snd (ask_human_approval
                      (s\<lparr>pending_threads := AList.delete tk (pending_threads s)\<rparr>)
                      t bn i y n m (request_delivered env) (ui_events env))))"
  unfolding flush_one_def Let_def split_beta
  by (simp split: option.splits sum.splits) blast

lemma flush_one_failed:
  assumes "\<not> sender_ok env"
  shows "messages (fst (snd (flush_one sha cfg env s tk))) = messages s
   \<and> thread_state (fst (snd (flush_one sha cfg env s tk))) = thread_state s
   \<and> last_sent_by_us (fst (snd (flush_one sha cfg env s tk))) = last_sent_by_us s
   \<and> last_seen_bottom (fst (snd (flush_one sha cfg env s tk))) = last_seen_bottom s
   \<and> last_seen_incoming (fst (snd (flush_one sha cfg env s tk))) = last_seen_incoming s
   \<and> sent (fst (snd (flush_one sha cfg env s tk))) = sent s"
  using flush_one_state[of sha cfg env s tk]
  by (elim disjE exE conjE) (simp_all add: send_reply_failed[OF assms] ask_human_approval_store)

lemma drain_loop_failed:
  "(\<And>k. \<not> send_ok (senv k)) \<Longrightarrow> drain_loop sha senv now i actions s = s"
  by (induction actions arbitrary: i s) (simp_all add: drain_action_failed)

lemma send_reply_sent:
  assumes "sender_ok env" and "final_reply \<noteq> []"
    and "if truthy href then open2 env else True"
  shows "sent (snd (send_reply sha env s tk buyer_name href final_reply d))
           = sent s @ [(tk, final_reply)]
    \<and> messages (snd (send_reply sha env s tk buyer_name href final_reply d))
           = snd (db_insert_message sha (messages s) tk ''seller'' final_reply (wall_clock env))
    \<and> last_sent_by_us (snd (send_reply sha env s tk buyer_name href final_reply d)) tk
           = Some final_reply
    \<and> last_seen_bottom (snd (send_reply sha env s tk buyer_name href final_reply d)) tk
           = Some final_reply"
proof -
  have o: "\<not> (truthy href \<and> \<not> open2 env)" using assms(3) by (auto split: if_splits)
  show ?thesis
    using assms(1,2) o
    by (simp add: send_reply_def send_message_def record_sent_def Let_def)
qed

text \<open>
  C6. When \<open>send_message\<close> returns false, the end of the flush leaves the whole state as
  it was, and so does the handling of a queued action; after a whole pass of the flush
  for a thread the stored messages, the thread states, the three caches and the list of
  sent texts are those from before, and a queue all of whose sends fail is emptied
  without any other change. When \<open>send_message\<close> returns true for a reply, the reply is
  noted as sent, offered to the table as a seller message and written to
  \<open>last_sent_by_us\<close> and \<open>last_seen_bottom\<close>.
\<close>

theorem failed_send_mutates_nothing:
  "(\<not> sender_ok env \<longrightarrow>
      snd (send_reply sha env s tk buyer_name href final_reply d) = s
      \<and> messages (fst (snd (flush_one sha cfg env s tk))) = messages s
      \<and> thread_state (fst (snd (flush_one sha cfg env s tk))) = thread_state s
      \<and> last_sent_by_us (fst (snd (flush_one sha cfg env s tk))) = last_sent_by_us s
      \<and> last_seen_bottom (fst (snd (flush_one sha cfg env s tk))) = last_seen_bottom s
      \<and> last_seen_incoming (fst (snd (flush_one sha cfg env s tk))) = last_seen_incoming s
      \<and> sent (fst (snd (flush_one sha cfg env s tk))) = sent s)
   \<and> (\<not> send_ok senv \<longrightarrow> drain_action sha senv now s action = s)
   \<and> ((\<forall>k. \<not> send_ok (senvs k)) \<longrightarrow>
        drain_send_queue sha senvs now s = s\<lparr>send_queue := []\<rparr>)
   \<and> (sender_ok env \<and> final_reply \<noteq> [] \<and> (if truthy href then open2 env else True) \<longrightarrow>
        sent (snd (send_reply sha env s tk buyer_name href final_reply d))
           = sent s @ [(tk, final_reply)]
        \<and> messages (snd (send_reply sha env s tk buyer_name href final_reply d))
           = snd (db_insert_message sha (messages s) tk ''seller'' final_reply (wall_clock env))
        \<and> last_sent_by_us (snd (send_reply sha env s tk buyer_name href final_reply d)) tk
           = Some final_reply
        \<and> last_seen_bottom (snd (send_reply sha env s tk buyer_name href final_reply d)) tk
           = Some final_reply)"
proof (intro conjI impI)
  assume f: "\<not> sender_ok env"
  show "snd (send_reply sha env s tk buyer_name href final_reply d) = s"
    using f by (rule send_reply_failed)
  note ff = flush_one_failed[OF f, of sha cfg s tk]
  show "messages (fst (snd (flush_one sha cfg env s tk))) = messages s" using ff by simp
  show "thread_state (fst (snd (flush_one sha cfg env s tk))) = thread_state s" using ff by simp
  show "last_sent_by_us (fst (snd (flush_one sha cfg env s tk))) = last_sent_by_us s"
    using ff by simp
  show "last_seen_bottom (fst (snd (flush_one sha cfg env s tk))) = last_seen_bottom s"
    using ff by simp
  show "last_seen_incoming (fst (snd (flush_one sha cfg env s tk))) = last_seen_incoming s"
    using ff by simp
  show "sent (fst (snd (flush_one sha cfg env s tk))) = sent s" using ff by simp
next
  assume "\<not> send_ok senv"
  then show "drain_action sha senv now s action = s" by (rule drain_action_failed)
next
  assume "\<forall>k. \<not> send_ok (senvs k)"
  then show "drain_send_queue sha senvs now s = s\<lparr>send_queue := []\<rparr>"
    by (simp add: drain_send_queue_def drain_loop_failed)
next
  assume a: "sender_ok env \<and> final_reply \<noteq> [] \<and> (if truthy href then open2 env else True)"
  note ss = send_reply_sent[of env final_reply href sha s tk buyer_name d]
  show "sent (snd (send_reply sha env s tk buyer_name href final_reply d))
           = sent s @ [(tk, final_reply)]" using a ss by simp
  show "messages (snd (send_reply sha env s tk buyer_name href final_reply d))
           = snd (db_insert_message sha (messages s) tk ''seller'' final_reply (wall_clock env))"
    using a ss by simp
  show "last_sent_by_us (snd (send_reply sha env s tk buyer_name href final_reply d)) tk
           = Some final_reply" using a ss by simp
  show "last_seen_bottom (snd (send_reply sha env s tk buyer_name href final_reply d)) tk
           = Some final_reply" using a ss by simp
qed

theorem failed_send_mutates_nothing_witness:
  "\<not> sender_ok (ex_env [] False)
   \<and> messages (fst (snd (flush_one (\<lambda>x. x) ex_cfg (ex_env [] False) ex_bot ''/t/1'')))
       = messages ex_bot
   \<and> last_seen_bottom (fst (snd (flush_one (\<lambda>x. x) ex_cfg (ex_env [] False) ex_bot ''/t/1'')))
       = last_seen_bottom ex_bot
   \<and> sent (fst (snd (flush_one (\<lambda>x. x) ex_cfg (ex_env [] False) ex_bot ''/t/1''))) = []
   \<and> sender_ok (ex_env [] True)
   \<and> sent (snd (send_reply (\<lambda>x. x) (ex_env [] True) ex_bot ''/t/1'' ''Ann'' (Some ''/t/1'')
                   ''Sorry, not today'' (decide ex_cfg ex_analysis)))
       = [(''/t/1'', ''Sorry, not today'')]"
  using failed_send_mutates_nothing
     [where env = "ex_env [] False" and s = ex_bot and tk = "''/t/1''" and sha = "\<lambda>x. x"
        and cfg = ex_cfg and senv = "\<lparr>open_ok = True, send_ok = False\<rparr>"
        and senvs = "\<lambda>k. \<lparr>open_ok = True, send_ok = False\<rparr>"]
    failed_send_mutates_nothing
     [where env = "ex_env [] True" and s = ex_bot and tk = "''/t/1''" and sha = "\<lambda>x. x"
        and buyer_name = "''Ann''" and href = "Some ''/t/1''"
        and final_reply = "''Sorry, not today''" and d = "decide ex_cfg ex_analysis"
        and senv = "\<lparr>open_ok = True, send_ok = False\<rparr>"
        and senvs = "\<lambda>k. \<lparr>open_ok = True, send_ok = False\<rparr>"]
  by (simp add: ex_env_def ex_bot_eq truthy_def)

section \<open>The guard on a completed request\<close>

lemma resolve_pending_done:
  "futures s f \<noteq> Pending \<Longrightarrow> futures (resolve_pending s rid v) f = futures s f"
  by (auto simp: resolve_pending_def split: option.splits)

lemma ui_step_done:
  "futures s f \<noteq> Pending \<Longrightarrow> futures (ui_step s e) f = futures s f"
  by (cases e)
     (simp_all add: ui_step_def handle_approval_def handle_admin_text_def Let_def
        resolve_pending_done split: option.splits prod.splits)

lemma run_ui_done:
  "futures s f \<noteq> Pending \<Longrightarrow> futures (run_ui es s) f = futures s f"
  by (induction es arbitrary: s) (simp_all add: ui_step_done)








section \<open>The timeout of a request\<close>














section \<open>The end of a request\<close>

lemma ask_human_approval_delivered:
  "ask_human_approval s t buyer intent yes_text no_text m True es =
     (Inr (fst (ask_end (fst (await_future (next_future s) (t + 3600) es
                                (ask_begin s t buyer intent yes_text no_text m)))
                  (request_id_of t) (next_future s))),
      snd (ask_end (fst (await_future (next_future s) (t + 3600) es
                           (ask_begin s t buyer intent yes_text no_text m)))
             (request_id_of t) (next_future s)),
      snd (await_future (next_future s) (t + 3600) es
             (ask_begin s t buyer intent yes_text no_text m)))"
  by (simp add: ask_human_approval_def Let_def split_beta)

lemma ask_end_result:
  "futures (snd (ask_end s rid f)) f = Result (fst (ask_end s rid f))
   \<or> (futures (snd (ask_end s rid f)) f = Cancelled \<and> \<not> fst (ask_end s rid f))"
  by (cases "futures s f") (simp_all add: ask_end_def Let_def)

lemma ask_end_removed:
  "pending_approvals (snd (ask_end s rid f)) rid = None
   \<and> approval_meta (snd (ask_end s rid f)) rid = None"
  by (cases "futures s f") (simp_all add: ask_end_def Let_def)

lemma handle_approval_expired:
  "approval_meta s (snd (split_once data)) = None \<Longrightarrow> handle_approval s data chat_id = s"
  by (simp add: handle_approval_def Let_def split_beta)

lemma handle_admin_text_expired:
  "custom_reply_wait s chat_id = Some rid \<Longrightarrow> approval_meta s rid = None \<Longrightarrow>
   handle_admin_text s chat_id text = s\<lparr>custom_reply_wait := (custom_reply_wait s)(chat_id := None)\<rparr>"
  by (simp add: handle_admin_text_def)

text \<open>
  C4, as it fails: the operator taps the button for a custom reply and then the button to
  approve; the request returns true and is over. The text that the operator sends after
  that is handled for the same request: it changes the state, as it removes the entry of
  the chat from \<open>custom_reply_wait\<close>. And a request that cannot be delivered is created
  but does not end in any of the four ways: the call raises, the future stays pending and
  the id stays in \<open>pending_approvals\<close>.
\<close>

theorem late_text_changes_state:
  "fst (ask_human_approval ex_bot 15 ''Ann'' ''asks to meet'' ''Sure, 5pm works''
          ''Sorry, not today''
          \<lparr>mt_thread_key = ''/t/1'', mt_href = Some ''/t/1'', mt_buyer_name = ''Ann'',
            mt_meetup_log = None\<rparr> True
          [(20, Callback ''custom_15000'' ''42''), (30, Callback ''approve_15000'' ''42''),
           (40, AdminText ''42'' ''hello'')]) = Inr True
   \<and> snd (snd (ask_human_approval ex_bot 15 ''Ann'' ''asks to meet'' ''Sure, 5pm works''
          ''Sorry, not today''
          \<lparr>mt_thread_key = ''/t/1'', mt_href = Some ''/t/1'', mt_buyer_name = ''Ann'',
            mt_meetup_log = None\<rparr> True
          [(20, Callback ''custom_15000'' ''42''), (30, Callback ''approve_15000'' ''42''),
           (40, AdminText ''42'' ''hello'')])) = [(40, AdminText ''42'' ''hello'')]
   \<and> custom_reply_wait (fst (snd (ask_human_approval ex_bot 15 ''Ann'' ''asks to meet''
          ''Sure, 5pm works'' ''Sorry, not today''
          \<lparr>mt_thread_key = ''/t/1'', mt_href = Some ''/t/1'', mt_buyer_name = ''Ann'',
            mt_meetup_log = None\<rparr> True
          [(20, Callback ''custom_15000'' ''42''), (30, Callback ''approve_15000'' ''42''),
           (40, AdminText ''42'' ''hello'')]))) ''42'' = Some ''15000''
   \<and> custom_reply_wait (ui_step (fst (snd (ask_human_approval ex_bot 15 ''Ann''
          ''asks to meet'' ''Sure, 5pm works'' ''Sorry, not today''
          \<lparr>mt_thread_key = ''/t/1'', mt_href = Some ''/t/1'', mt_buyer_name = ''Ann'',
            mt_meetup_log = None\<rparr> True
          [(20, Callback ''custom_15000'' ''42''), (30, Callback ''approve_15000'' ''42''),
           (40, AdminText ''42'' ''hello'')]))) (AdminText ''42'' ''hello'')) ''42'' = None
   \<and> fst (ask_human_approval ex_bot 15 ''Ann'' ''asks to meet'' ''Sure, 5pm works''
          ''Sorry, not today''
          \<lparr>mt_thread_key = ''/t/1'', mt_href = Some ''/t/1'', mt_buyer_name = ''Ann'',
            mt_meetup_log = None\<rparr> False []) = Inl TelegramError
   \<and> pending_approvals (fst (snd (ask_human_approval ex_bot 15 ''Ann'' ''asks to meet''
          ''Sure, 5pm works'' ''Sorry, not today''
          \<lparr>mt_thread_key = ''/t/1'', mt_href = Some ''/t/1'', mt_buyer_name = ''Ann'',
            mt_meetup_log = None\<rparr> False []))) ''15000'' = Some 0
   \<and> futures (fst (snd (ask_human_approval ex_bot 15 ''Ann'' ''asks to meet''
          ''Sure, 5pm works'' ''Sorry, not today''
          \<lparr>mt_thread_key = ''/t/1'', mt_href = Some ''/t/1'', mt_buyer_name = ''Ann'',
            mt_meetup_log = None\<rparr> False []))) 0 = Pending"
  by (simp add: ex_bot_eq flush_eval)

text \<open>
  C4, amended: a future that is done is changed by no tap and no text of the operator. A
  request that has been delivered always ends: its future then holds the result that the
  request returns, or is cancelled by the timeout with the result false, and the id is
  gone from \<open>pending_approvals\<close> and \<open>approval_meta\<close>. After that, a tap on any button of
  the request leaves the whole state as it is, no sequence of taps and texts changes the
  future, and a text that the operator sends for a custom reply asked for earlier only
  clears the entry of the chat in \<open>custom_reply_wait\<close>.
\<close>

theorem approval_resolves_once:
  "(futures s f \<noteq> Pending \<longrightarrow>
      futures (ui_step s e) f = futures s f \<and> futures (run_ui es s) f = futures s f)
   \<and> (let r = ask_human_approval s t buyer intent yes_text no_text m True events;
           sr = fst (snd r);
           rid = request_id_of t
       in (\<exists>b. fst r = Inr b
                \<and> (futures sr (next_future s) = Result b
                    \<or> (futures sr (next_future s) = Cancelled \<and> \<not> b)))
          \<and> pending_approvals sr rid = None
          \<and> approval_meta sr rid = None
          \<and> (snd (split_once data) = rid \<longrightarrow> ui_step sr (Callback data chat_id) = sr)
          \<and> futures (run_ui late sr) (next_future s) = futures sr (next_future s)
          \<and> (custom_reply_wait sr chat_id = Some rid \<longrightarrow>
               ui_step sr (AdminText chat_id msg) =
                 sr\<lparr>custom_reply_wait := (custom_reply_wait sr)(chat_id := None)\<rparr>))"
proof (intro conjI impI)
  assume d: "futures s f \<noteq> Pending"
  show "futures (ui_step s e) f = futures s f" using d by (rule ui_step_done)
  show "futures (run_ui es s) f = futures s f" using d by (rule run_ui_done)
next
  define sw where "sw = fst (await_future (next_future s) (t + 3600) events
                               (ask_begin s t buyer intent yes_text no_text m))"
  define sr where "sr = snd (ask_end sw (request_id_of t) (next_future s))"
  define b where "b = fst (ask_end sw (request_id_of t) (next_future s))"
  have r: "fst (ask_human_approval s t buyer intent yes_text no_text m True events) = Inr b"
    unfolding b_def sw_def by (simp add: ask_human_approval_delivered)
  have st: "fst (snd (ask_human_approval s t buyer intent yes_text no_text m True events)) = sr"
    unfolding sr_def sw_def by (simp add: ask_human_approval_delivered)
  have res: "futures sr (next_future s) = Result b
     \<or> (futures sr (next_future s) = Cancelled \<and> \<not> b)"
    unfolding sr_def b_def by (rule ask_end_result)
  have rem: "pending_approvals sr (request_id_of t) = None
     \<and> approval_meta sr (request_id_of t) = None"
    unfolding sr_def by (rule ask_end_removed)
  have dn: "futures sr (next_future s) \<noteq> Pending" using res by auto
  have cb: "ui_step sr (Callback data chat_id) = sr" if "snd (split_once data) = request_id_of t"
    using that rem by (simp add: ui_step_def handle_approval_expired)
  have lt: "futures (run_ui late sr) (next_future s) = futures sr (next_future s)"
    using dn by (rule run_ui_done)
  have tx: "ui_step sr (AdminText chat_id msg) =
              sr\<lparr>custom_reply_wait := (custom_reply_wait sr)(chat_id := None)\<rparr>"
    if "custom_reply_wait sr chat_id = Some (request_id_of t)"
    using that rem by (simp add: ui_step_def handle_admin_text_expired)
  have ex: "\<exists>b. Inr b = (Inr b :: error + bool)" by simp
  show "let r = ask_human_approval s t buyer intent yes_text no_text m True events;
           sr = fst (snd r);
           rid = request_id_of t
       in (\<exists>b. fst r = Inr b
                \<and> (futures sr (next_future s) = Result b
                    \<or> (futures sr (next_future s) = Cancelled \<and> \<not> b)))
          \<and> pending_approvals sr rid = None
          \<and> approval_meta sr rid = None
          \<and> (snd (split_once data) = rid \<longrightarrow> ui_step sr (Callback data chat_id) = sr)
          \<and> futures (run_ui late sr) (next_future s) = futures sr (next_future s)
          \<and> (custom_reply_wait sr chat_id = Some rid \<longrightarrow>
               ui_step sr (AdminText chat_id msg) =
                 sr\<lparr>custom_reply_wait := (custom_reply_wait sr)(chat_id := None)\<rparr>)"
    unfolding Let_def st r using res rem cb lt tx by blast
qed

theorem approval_resolves_once_witness:
  "fst (ask_human_approval ex_bot 15 ''Ann'' ''asks to meet'' ''Sure, 5pm works''
          ''Sorry, not today''
          \<lparr>mt_thread_key = ''/t/1'', mt_href = Some ''/t/1'', mt_buyer_name = ''Ann'',
            mt_meetup_log = None\<rparr> True
          [(20, Callback ''approve_15000'' ''42''), (21, Callback ''decline_15000'' ''42'')])
     = Inr True
   \<and> snd (snd (ask_human_approval ex_bot 15 ''Ann'' ''asks to meet'' ''Sure, 5pm works''
          ''Sorry, not today''
          \<lparr>mt_thread_key = ''/t/1'', mt_href = Some ''/t/1'', mt_buyer_name = ''Ann'',
            mt_meetup_log = None\<rparr> True
          [(20, Callback ''approve_15000'' ''42''), (21, Callback ''decline_15000'' ''42'')]))
       = [(21, Callback ''decline_15000'' ''42'')]
   \<and> snd (split_once ''decline_15000'') = request_id_of 15
   \<and> futures (ui_step
        (fst (snd (ask_human_approval ex_bot 15 ''Ann'' ''asks to meet'' ''Sure, 5pm works''
          ''Sorry, not today''
          \<lparr>mt_thread_key = ''/t/1'', mt_href = Some ''/t/1'', mt_buyer_name = ''Ann'',
            mt_meetup_log = None\<rparr> True
          [(20, Callback ''approve_15000'' ''42''), (21, Callback ''decline_15000'' ''42'')])))
        (Callback ''decline_15000'' ''42'')) 0 = Result True"
  using approval_resolves_once
     [where s = ex_bot and t = 15 and buyer = "''Ann''" and intent = "''asks to meet''"
        and yes_text = "''Sure, 5pm works''" and no_text = "''Sorry, not today''"
        and m = "\<lparr>mt_thread_key = ''/t/1'', mt_href = Some ''/t/1'', mt_buyer_name = ''Ann'',
              mt_meetup_log = None\<rparr>"
        and events = "[(20, Callback ''approve_15000'' ''42''),
                       (21, Callback ''decline_15000'' ''42'')]"
        and data = "''decline_15000''" and chat_id = "''42''" and late = "[]"
        and f = 0 and e = "Callback ''decline_15000'' ''42''" and msg = "''x''"
        and es = "[]"]
  by (simp add: ex_bot_eq flush_eval)

section \<open>Request ids\<close>

lemma below_ten:
  assumes "(d::nat) < 10"
  obtains "d = 0" | "d = 1" | "d = 2" | "d = 3" | "d = 4" | "d = 5" | "d = 6"
    | "d = 7" | "d = 8" | "d = 9"
  using assms by fastforce

lemma digit_val_digit_char:
  assumes "d < 10"
  shows "digit_val (digit_char d) = d"
  using assms by (rule below_ten) (simp_all add: digit_char_def digit_val_def)

lemma digit_char_not_minus:
  assumes "d < 10"
  shows "digit_char d \<noteq> CHR ''-''"
  using assms by (rule below_ten) (simp_all add: digit_char_def)

lemma nat_of_digits_snoc:
  "nat_of_digits (cs @ [c]) = 10 * nat_of_digits cs + digit_val c"
  by (simp add: nat_of_digits_def)

lemma nat_of_digits_str_nat: "nat_of_digits (str_nat n) = n"
proof (induction n rule: str_nat.induct)
  case (1 n)
  show ?case
  proof (cases "n < 10")
    case True
    then show ?thesis
      by (simp add: str_nat.simps[of n] nat_of_digits_def digit_val_digit_char)
  next
    case False
    with 1 have "nat_of_digits (str_nat (n div 10)) = n div 10" by simp
    with False show ?thesis
      by (simp add: str_nat.simps[of n] nat_of_digits_snoc digit_val_digit_char)
  qed
qed

lemma str_nat_inj: "str_nat a = str_nat b \<Longrightarrow> a = b"
  by (metis nat_of_digits_str_nat)

lemma str_nat_no_minus: "CHR ''-'' \<notin> set (str_nat n)"
proof (induction n rule: str_nat.induct)
  case (1 n)
  show ?case
  proof (cases "n < 10")
    case True
    then show ?thesis
      using digit_char_not_minus[of n] by (simp add: str_nat.simps[of n])
  next
    case False
    with 1 have "CHR ''-'' \<notin> set (str_nat (n div 10))" by simp
    with False show ?thesis
      using digit_char_not_minus[of "n mod 10"] by (simp add: str_nat.simps[of n])
  qed
qed

lemma str_int_inj:
  assumes "str_int i = str_int j"
  shows "i = j"
proof -
  have m: "CHR ''-'' # cs \<noteq> str_nat n" for cs n
    using str_nat_no_minus[of n] by (metis list.set_intros(1))
  show ?thesis
  proof (cases "i < 0")
    case True
    show ?thesis
    proof (cases "j < 0")
      case True
      with \<open>i < 0\<close> assms have "str_nat (nat (- i)) = str_nat (nat (- j))"
        by (simp add: str_int_def)
      then have "nat (- i) = nat (- j)" by (rule str_nat_inj)
      with True \<open>i < 0\<close> show ?thesis by simp
    next
      case False
      with True assms m[of "str_nat (nat (- i))" "nat j"] show ?thesis
        by (simp add: str_int_def)
    qed
  next
    case False
    show ?thesis
    proof (cases "j < 0")
      case True
      with False assms m[of "str_nat (nat (- j))" "nat i"] show ?thesis
        by (simp add: str_int_def)
    next
      case nj: False
      with False assms have "str_nat (nat i) = str_nat (nat j)"
        by (simp add: str_int_def)
      then have "nat i = nat j" by (rule str_nat_inj)
      with False nj show ?thesis by simp
    qed
  qed
qed

lemma request_id_of_eq:
  "request_id_of ta = request_id_of tb \<longleftrightarrow> py_int (ta * 1000) = py_int (tb * 1000)"
  unfolding request_id_of_def using str_int_inj by auto

section \<open>A future that no id refers to\<close>

lemma ui_step_unreferenced:
  assumes "\<forall>rid. pending_approvals s rid \<noteq> Some f"
  shows "futures (ui_step s e) f = futures s f"
    and "pending_approvals (ui_step s e) = pending_approvals s"
  using assms
  by (cases e;
      auto simp: ui_step_def handle_approval_def handle_admin_text_def Let_def
        resolve_pending_def split: option.splits prod.splits)+

lemma run_ui_unreferenced:
  assumes "\<forall>rid. pending_approvals s rid \<noteq> Some f"
  shows "futures (run_ui es s) f = futures s f"
  using assms
proof (induction es arbitrary: s)
  case Nil
  show ?case by simp
next
  case (Cons e es)
  from Cons.prems have "\<forall>rid. pending_approvals (ui_step s e) rid \<noteq> Some f"
    by (simp add: ui_step_unreferenced(2))
  from Cons.IH[OF this] Cons.prems show ?case by (simp add: ui_step_unreferenced(1))
qed

lemma ui_step_v3_unreferenced:
  assumes "\<forall>rid. pending_approvals s rid \<noteq> Some f"
  shows "futures (ui_step_v3 s e) f = futures s f"
    and "pending_approvals (ui_step_v3 s e) = pending_approvals s"
  using assms
  by (auto simp: ui_step_v3_def handle_approval_v3_def Let_def
        split: option.splits prod.splits)

lemma run_ui_v3_unreferenced:
  assumes "\<forall>rid. pending_approvals s rid \<noteq> Some f"
  shows "futures (run_ui_v3 es s) f = futures s f"
  using assms
proof (induction es arbitrary: s)
  case Nil
  show ?case by simp
next
  case (Cons e es)
  from Cons.prems have "\<forall>rid. pending_approvals (ui_step_v3 s e) rid \<noteq> Some f"
    by (simp add: ui_step_v3_unreferenced(2))
  from Cons.IH[OF this] Cons.prems show ?case by (simp add: ui_step_v3_unreferenced(1))
qed

lemma split_once_approve:
  "split_once (CHR ''a'' # CHR ''p'' # CHR ''p'' # CHR ''r'' # CHR ''o'' # CHR ''v'' # CHR ''e''
                 # CHR ''_'' # rid) = (''approve'', rid)"
  by (simp add: split_once_def)

lemma two_requests_state:
  "pending_approvals (ask_begin (ask_begin s ta buyer_a intent_a yes_a no_a ma)
                        tb buyer_b intent_b yes_b no_b mb)
     = ((pending_approvals s)(request_id_of ta \<mapsto> next_future s))
         (request_id_of tb \<mapsto> next_future s + 1)"
  "futures (ask_begin (ask_begin s ta buyer_a intent_a yes_a no_a ma)
              tb buyer_b intent_b yes_b no_b mb)
     = ((futures s)(next_future s := Pending))(next_future s + 1 := Pending)"
  "approval_meta (ask_begin (ask_begin s ta buyer_a intent_a yes_a no_a ma)
                    tb buyer_b intent_b yes_b no_b mb) (request_id_of tb) \<noteq> None"
  "request_id_of ta \<noteq> request_id_of tb \<Longrightarrow>
   approval_meta (ask_begin (ask_begin s ta buyer_a intent_a yes_a no_a ma)
                    tb buyer_b intent_b yes_b no_b mb) (request_id_of ta) \<noteq> None"
  by (simp_all add: ask_begin_def Let_def)

lemma two_requests_state_v3:
  "pending_approvals (ask_begin_v3 (ask_begin_v3 s ta) tb)
     = ((pending_approvals s)(request_id_of ta \<mapsto> next_future s))
         (request_id_of tb \<mapsto> next_future s + 1)"
  "futures (ask_begin_v3 (ask_begin_v3 s ta) tb)
     = ((futures s)(next_future s := Pending))(next_future s + 1 := Pending)"
  by (simp_all add: ask_begin_v3_def Let_def)

lemma tap_approve:
  assumes "pending_approvals s rid = Some f" and "futures s f = Pending"
    and "approval_meta s rid \<noteq> None"
  shows "futures (ui_step s (Callback (''approve_'' @ rid) chat_id)) f = Result True"
  using assms
  by (auto simp: ui_step_def handle_approval_def split_once_approve resolve_pending_def)

lemma tap_approve_other:
  assumes "pending_approvals s rid = Some f" and "g \<noteq> f"
  shows "futures (ui_step s (Callback (''approve_'' @ rid) chat_id)) g = futures s g"
  using assms
  by (auto simp: ui_step_def handle_approval_def split_once_approve resolve_pending_def
        split: option.splits)

lemma tap_approve_v3:
  assumes "pending_approvals s rid = Some f" and "futures s f = Pending"
  shows "futures (ui_step_v3 s (''approve_'' @ rid)) f = Result True"
  using assms
  by (auto simp: ui_step_v3_def handle_approval_v3_def split_once_approve)

lemma tap_approve_v3_other:
  assumes "pending_approvals s rid = Some f" and "g \<noteq> f"
  shows "futures (ui_step_v3 s (''approve_'' @ rid)) g = futures s g"
  using assms
  by (auto simp: ui_step_v3_def handle_approval_v3_def split_once_approve)

text \<open>
  The future of a request is a new object: every address that \<open>pending_approvals\<close> holds
  is below \<open>next_future\<close>. This holds at the start and is kept by the coordinator, so no
  id refers to the address that the next request takes.
\<close>

lemma allocated_below:
  assumes "\<forall>rid f. pending_approvals s rid = Some f \<longrightarrow> f < next_future s"
  shows "\<forall>rid. pending_approvals s rid \<noteq> Some (next_future s)"
    and "\<forall>rid f. pending_approvals (ask_begin s t buyer intent yes_text no_text m) rid = Some f
           \<longrightarrow> f < next_future (ask_begin s t buyer intent yes_text no_text m)"
    and "\<forall>rid f. pending_approvals (ask_begin_v3 s t) rid = Some f
           \<longrightarrow> f < next_future (ask_begin_v3 s t)"
    and "\<forall>rid f. pending_approvals (ui_step s e) rid = Some f \<longrightarrow> f < next_future (ui_step s e)"
    and "\<forall>rid f. pending_approvals (snd (ask_end s r g)) rid = Some f
           \<longrightarrow> f < next_future (snd (ask_end s r g))"
proof -
  show "\<forall>rid. pending_approvals s rid \<noteq> Some (next_future s)"
    using assms by (metis less_irrefl)
  show "\<forall>rid f. pending_approvals (ask_begin s t buyer intent yes_text no_text m) rid = Some f
           \<longrightarrow> f < next_future (ask_begin s t buyer intent yes_text no_text m)"
    using assms by (auto simp: ask_begin_def Let_def less_Suc_eq)
  show "\<forall>rid f. pending_approvals (ask_begin_v3 s t) rid = Some f
           \<longrightarrow> f < next_future (ask_begin_v3 s t)"
    using assms by (auto simp: ask_begin_v3_def Let_def less_Suc_eq)
  show "\<forall>rid f. pending_approvals (ui_step s e) rid = Some f \<longrightarrow> f < next_future (ui_step s e)"
    using assms by (simp add: ui_step_store)
  show "\<forall>rid f. pending_approvals (snd (ask_end s r g)) rid = Some f
           \<longrightarrow> f < next_future (snd (ask_end s r g))"
    using assms by (auto simp: ask_end_def Let_def split: fut.splits)
qed

lemma allocated_below_initial:
  "\<forall>rid f. pending_approvals initial_bot rid = Some f \<longrightarrow> f < next_future initial_bot"
  by (simp add: initial_bot_def)

text \<open>
  C10. The id of a request is the decimal numeral of the clock of the event loop in whole
  milliseconds, so two requests have the same id exactly when they are created in the
  same millisecond. Two requests created one after the other while both wait: when their
  milliseconds differ, each id leads to the future of its own request and the tap on the
  button to approve of the first completes the first. When the milliseconds are equal,
  the id leads to the future of the second request, the tap completes that one, no
  sequence of taps and texts completes the future of the first, and the wait of the first
  ends with false. That no id refers to the new future of the first request beforehand
  is the fact above. The same holds in version 3.
\<close>

theorem request_id_collision:
  "(request_id_of ta = request_id_of tb \<longleftrightarrow> py_int (ta * 1000) = py_int (tb * 1000))
   \<and> (let sb = ask_begin (ask_begin s ta buyer_a intent_a yes_a no_a ma)
                  tb buyer_b intent_b yes_b no_b mb;
           fa = next_future s;
           fb = next_future s + 1
       in (py_int (ta * 1000) \<noteq> py_int (tb * 1000) \<longrightarrow>
             pending_approvals sb (request_id_of ta) = Some fa
             \<and> pending_approvals sb (request_id_of tb) = Some fb
             \<and> futures (ui_step sb (Callback (''approve_'' @ request_id_of ta) chat_id)) fa
                 = Result True
             \<and> futures (ui_step sb (Callback (''approve_'' @ request_id_of ta) chat_id)) fb
                 = Pending)
          \<and> (py_int (ta * 1000) = py_int (tb * 1000)
              \<and> (\<forall>rid. pending_approvals s rid \<noteq> Some fa) \<longrightarrow>
             pending_approvals sb (request_id_of ta) = Some fb
             \<and> futures (ui_step sb (Callback (''approve_'' @ request_id_of ta) chat_id)) fb
                 = Result True
             \<and> futures (run_ui late sb) fa = Pending
             \<and> \<not> fst (ask_end (run_ui late sb) (request_id_of ta) fa)))
   \<and> (let sb = ask_begin_v3 (ask_begin_v3 s ta) tb;
           fa = next_future s;
           fb = next_future s + 1
       in (py_int (ta * 1000) \<noteq> py_int (tb * 1000) \<longrightarrow>
             pending_approvals sb (request_id_of ta) = Some fa
             \<and> pending_approvals sb (request_id_of tb) = Some fb
             \<and> futures (ui_step_v3 sb (''approve_'' @ request_id_of ta)) fa = Result True
             \<and> futures (ui_step_v3 sb (''approve_'' @ request_id_of ta)) fb = Pending)
          \<and> (py_int (ta * 1000) = py_int (tb * 1000)
              \<and> (\<forall>rid. pending_approvals s rid \<noteq> Some fa) \<longrightarrow>
             pending_approvals sb (request_id_of ta) = Some fb
             \<and> futures (ui_step_v3 sb (''approve_'' @ request_id_of ta)) fb = Result True
             \<and> futures (run_ui_v3 taps sb) fa = Pending
             \<and> \<not> fst (ask_end_v3 (run_ui_v3 taps sb) (request_id_of ta) fa)))"
proof (intro conjI)
  show "request_id_of ta = request_id_of tb \<longleftrightarrow> py_int (ta * 1000) = py_int (tb * 1000)"
    by (rule request_id_of_eq)
next
  define sb where "sb = ask_begin (ask_begin s ta buyer_a intent_a yes_a no_a ma)
                          tb buyer_b intent_b yes_b no_b mb"
  note st = two_requests_state[where s = s and ta = ta and buyer_a = buyer_a
                and intent_a = intent_a and yes_a = yes_a and no_a = no_a and ma = ma
                and tb = tb and buyer_b = buyer_b and intent_b = intent_b and yes_b = yes_b
                and no_b = no_b and mb = mb, folded sb_def]
  have dist: "pending_approvals sb (request_id_of ta) = Some (next_future s)
       \<and> pending_approvals sb (request_id_of tb) = Some (next_future s + 1)
       \<and> futures (ui_step sb (Callback (''approve_'' @ request_id_of ta) chat_id))
            (next_future s) = Result True
       \<and> futures (ui_step sb (Callback (''approve_'' @ request_id_of ta) chat_id))
            (next_future s + 1) = Pending"
    if "py_int (ta * 1000) \<noteq> py_int (tb * 1000)"
  proof -
    from that have ne: "request_id_of ta \<noteq> request_id_of tb" by (simp add: request_id_of_eq)
    have pa: "pending_approvals sb (request_id_of ta) = Some (next_future s)"
      and pb: "pending_approvals sb (request_id_of tb) = Some (next_future s + 1)"
      using ne by (simp_all add: st(1))
    have fa: "futures sb (next_future s) = Pending" by (simp add: st(2))
    have t: "futures (ui_step sb (Callback (''approve_'' @ request_id_of ta) chat_id))
               (next_future s) = Result True"
      using pa fa st(4)[OF ne] by (rule tap_approve)
    have o: "futures (ui_step sb (Callback (''approve_'' @ request_id_of ta) chat_id))
               (next_future s + 1) = Pending"
      using tap_approve_other[OF pa, of "next_future s + 1" chat_id] by (simp add: st(2))
    from pa pb t o show ?thesis by simp
  qed
  have same: "pending_approvals sb (request_id_of ta) = Some (next_future s + 1)
       \<and> futures (ui_step sb (Callback (''approve_'' @ request_id_of ta) chat_id))
            (next_future s + 1) = Result True
       \<and> futures (run_ui late sb) (next_future s) = Pending
       \<and> \<not> fst (ask_end (run_ui late sb) (request_id_of ta) (next_future s))"
    if "py_int (ta * 1000) = py_int (tb * 1000)
        \<and> (\<forall>rid. pending_approvals s rid \<noteq> Some (next_future s))"
  proof -
    from that have eq: "request_id_of ta = request_id_of tb" by (simp add: request_id_of_eq)
    from that have fr: "\<forall>rid. pending_approvals s rid \<noteq> Some (next_future s)" by simp
    have pa: "pending_approvals sb (request_id_of ta) = Some (next_future s + 1)"
      using eq by (simp add: st(1))
    have fb: "futures sb (next_future s + 1) = Pending" by (simp add: st(2))
    have mt: "approval_meta sb (request_id_of ta) \<noteq> None" using st(3) eq by simp
    have t: "futures (ui_step sb (Callback (''approve_'' @ request_id_of ta) chat_id))
               (next_future s + 1) = Result True"
      using pa fb mt by (rule tap_approve)
    have un: "\<forall>rid. pending_approvals sb rid \<noteq> Some (next_future s)"
      using fr eq by (simp add: st(1))
    have l: "futures (run_ui late sb) (next_future s) = Pending"
      using run_ui_unreferenced[OF un, of late] by (simp add: st(2))
    have e: "\<not> fst (ask_end (run_ui late sb) (request_id_of ta) (next_future s))"
      using l by (simp add: ask_end_def Let_def)
    from pa t l e show ?thesis by simp
  qed
  show "let sb = ask_begin (ask_begin s ta buyer_a intent_a yes_a no_a ma)
                  tb buyer_b intent_b yes_b no_b mb;
           fa = next_future s;
           fb = next_future s + 1
       in (py_int (ta * 1000) \<noteq> py_int (tb * 1000) \<longrightarrow>
             pending_approvals sb (request_id_of ta) = Some fa
             \<and> pending_approvals sb (request_id_of tb) = Some fb
             \<and> futures (ui_step sb (Callback (''approve_'' @ request_id_of ta) chat_id)) fa
                 = Result True
             \<and> futures (ui_step sb (Callback (''approve_'' @ request_id_of ta) chat_id)) fb
                 = Pending)
          \<and> (py_int (ta * 1000) = py_int (tb * 1000)
              \<and> (\<forall>rid. pending_approvals s rid \<noteq> Some fa) \<longrightarrow>
             pending_approvals sb (request_id_of ta) = Some fb
             \<and> futures (ui_step sb (Callback (''approve_'' @ request_id_of ta) chat_id)) fb
                 = Result True
             \<and> futures (run_ui late sb) fa = Pending
             \<and> \<not> fst (ask_end (run_ui late sb) (request_id_of ta) fa))"
    unfolding Let_def sb_def[symmetric] using dist same by blast
next
  define sb where "sb = ask_begin_v3 (ask_begin_v3 s ta) tb"
  note st = two_requests_state_v3[where s = s and ta = ta and tb = tb, folded sb_def]
  have dist: "pending_approvals sb (request_id_of ta) = Some (next_future s)
       \<and> pending_approvals sb (request_id_of tb) = Some (next_future s + 1)
       \<and> futures (ui_step_v3 sb (''approve_'' @ request_id_of ta)) (next_future s) = Result True
       \<and> futures (ui_step_v3 sb (''approve_'' @ request_id_of ta)) (next_future s + 1) = Pending"
    if "py_int (ta * 1000) \<noteq> py_int (tb * 1000)"
  proof -
    from that have ne: "request_id_of ta \<noteq> request_id_of tb" by (simp add: request_id_of_eq)
    have pa: "pending_approvals sb (request_id_of ta) = Some (next_future s)"
      and pb: "pending_approvals sb (request_id_of tb) = Some (next_future s + 1)"
      using ne by (simp_all add: st(1))
    have fa: "futures sb (next_future s) = Pending" by (simp add: st(2))
    have t: "futures (ui_step_v3 sb (''approve_'' @ request_id_of ta)) (next_future s)
               = Result True"
      using pa fa by (rule tap_approve_v3)
    have o: "futures (ui_step_v3 sb (''approve_'' @ request_id_of ta)) (next_future s + 1)
               = Pending"
      using tap_approve_v3_other[OF pa, of "next_future s + 1"] by (simp add: st(2))
    from pa pb t o show ?thesis by simp
  qed
  have same: "pending_approvals sb (request_id_of ta) = Some (next_future s + 1)
       \<and> futures (ui_step_v3 sb (''approve_'' @ request_id_of ta)) (next_future s + 1)
           = Result True
       \<and> futures (run_ui_v3 taps sb) (next_future s) = Pending
       \<and> \<not> fst (ask_end_v3 (run_ui_v3 taps sb) (request_id_of ta) (next_future s))"
    if "py_int (ta * 1000) = py_int (tb * 1000)
        \<and> (\<forall>rid. pending_approvals s rid \<noteq> Some (next_future s))"
  proof -
    from that have eq: "request_id_of ta = request_id_of tb" by (simp add: request_id_of_eq)
    from that have fr: "\<forall>rid. pending_approvals s rid \<noteq> Some (next_future s)" by simp
    have pa: "pending_approvals sb (request_id_of ta) = Some (next_future s + 1)"
      using eq by (simp add: st(1))
    have fb: "futures sb (next_future s + 1) = Pending" by (simp add: st(2))
    have t: "futures (ui_step_v3 sb (''approve_'' @ request_id_of ta)) (next_future s + 1)
               = Result True"
      using pa fb by (rule tap_approve_v3)
    have un: "\<forall>rid. pending_approvals sb rid \<noteq> Some (next_future s)"
      using fr eq by (simp add: st(1))
    have l: "futures (run_ui_v3 taps sb) (next_future s) = Pending"
      using run_ui_v3_unreferenced[OF un, of taps] by (simp add: st(2))
    have e: "\<not> fst (ask_end_v3 (run_ui_v3 taps sb) (request_id_of ta) (next_future s))"
      using l by (simp add: ask_end_v3_def Let_def)
    from pa t l e show ?thesis by simp
  qed
  show "let sb = ask_begin_v3 (ask_begin_v3 s ta) tb;
           fa = next_future s;
           fb = next_future s + 1
       in (py_int (ta * 1000) \<noteq> py_int (tb * 1000) \<longrightarrow>
             pending_approvals sb (request_id_of ta) = Some fa
             \<and> pending_approvals sb (request_id_of tb) = Some fb
             \<and> futures (ui_step_v3 sb (''approve_'' @ request_id_of ta)) fa = Result True
             \<and> futures (ui_step_v3 sb (''approve_'' @ request_id_of ta)) fb = Pending)
          \<and> (py_int (ta * 1000) = py_int (tb * 1000)
              \<and> (\<forall>rid. pending_approvals s rid \<noteq> Some fa) \<longrightarrow>
             pending_approvals sb (request_id_of ta) = Some fb
             \<and> futures (ui_step_v3 sb (''approve_'' @ request_id_of ta)) fb = Result True
             \<and> futures (run_ui_v3 taps sb) fa = Pending
             \<and> \<not> fst (ask_end_v3 (run_ui_v3 taps sb) (request_id_of ta) fa))"
    unfolding Let_def sb_def[symmetric] using dist same by blast
qed

theorem request_id_collision_witness:
  "request_id_of 15 = ''15000''
   \<and> request_id_of (15 + 1 / 2500) = ''15000''
   \<and> request_id_of 16 = ''16000''
   \<and> pending_approvals
        (ask_begin (ask_begin ex_bot 15 ''Ann'' ''asks to meet'' ''Sure, 5pm works''
              ''Sorry, not today''
              \<lparr>mt_thread_key = ''/t/1'', mt_href = Some ''/t/1'', mt_buyer_name = ''Ann'',
              mt_meetup_log = None\<rparr>)
            (15 + 1 / 2500) ''Bob'' ''asks the price'' ''It is 10'' ''No''
            \<lparr>mt_thread_key = ''/t/2'', mt_href = Some ''/t/2'', mt_buyer_name = ''Bob'',
              mt_meetup_log = None\<rparr>) ''15000'' = Some 1
   \<and> futures (run_ui [Callback ''approve_15000'' ''42'']
        (ask_begin (ask_begin ex_bot 15 ''Ann'' ''asks to meet'' ''Sure, 5pm works''
              ''Sorry, not today''
              \<lparr>mt_thread_key = ''/t/1'', mt_href = Some ''/t/1'', mt_buyer_name = ''Ann'',
              mt_meetup_log = None\<rparr>)
            (15 + 1 / 2500) ''Bob'' ''asks the price'' ''It is 10'' ''No''
            \<lparr>mt_thread_key = ''/t/2'', mt_href = Some ''/t/2'', mt_buyer_name = ''Bob'',
              mt_meetup_log = None\<rparr>)) 0 = Pending
   \<and> futures (run_ui [Callback ''approve_15000'' ''42'']
        (ask_begin (ask_begin ex_bot 15 ''Ann'' ''asks to meet'' ''Sure, 5pm works''
              ''Sorry, not today''
              \<lparr>mt_thread_key = ''/t/1'', mt_href = Some ''/t/1'', mt_buyer_name = ''Ann'',
              mt_meetup_log = None\<rparr>)
            (15 + 1 / 2500) ''Bob'' ''asks the price'' ''It is 10'' ''No''
            \<lparr>mt_thread_key = ''/t/2'', mt_href = Some ''/t/2'', mt_buyer_name = ''Bob'',
              mt_meetup_log = None\<rparr>)) 1 = Result True
   \<and> pending_approvals
        (ask_begin (ask_begin ex_bot 15 ''Ann'' ''asks to meet'' ''Sure, 5pm works''
              ''Sorry, not today''
              \<lparr>mt_thread_key = ''/t/1'', mt_href = Some ''/t/1'', mt_buyer_name = ''Ann'',
              mt_meetup_log = None\<rparr>)
            16 ''Bob'' ''asks the price'' ''It is 10'' ''No''
            \<lparr>mt_thread_key = ''/t/2'', mt_href = Some ''/t/2'', mt_buyer_name = ''Bob'',
              mt_meetup_log = None\<rparr>) ''15000'' = Some 0
   \<and> pending_approvals
        (ask_begin (ask_begin ex_bot 15 ''Ann'' ''asks to meet'' ''Sure, 5pm works''
              ''Sorry, not today''
              \<lparr>mt_thread_key = ''/t/1'', mt_href = Some ''/t/1'', mt_buyer_name = ''Ann'',
              mt_meetup_log = None\<rparr>)
            16 ''Bob'' ''asks the price'' ''It is 10'' ''No''
            \<lparr>mt_thread_key = ''/t/2'', mt_href = Some ''/t/2'', mt_buyer_name = ''Bob'',
              mt_meetup_log = None\<rparr>) ''16000'' = Some 1"
  using request_id_collision
     [where s = ex_bot and ta = 15 and tb = "15 + 1 / 2500" and buyer_a = "''Ann''"
        and intent_a = "''asks to meet''" and yes_a = "''Sure, 5pm works''"
        and no_a = "''Sorry, not today''"
        and ma = "\<lparr>mt_thread_key = ''/t/1'', mt_href = Some ''/t/1'', mt_buyer_name = ''Ann'',
              mt_meetup_log = None\<rparr>"
        and buyer_b = "''Bob''" and intent_b = "''asks the price''" and yes_b = "''It is 10''"
        and no_b = "''No''"
        and mb = "\<lparr>mt_thread_key = ''/t/2'', mt_href = Some ''/t/2'', mt_buyer_name = ''Bob'',
              mt_meetup_log = None\<rparr>"
        and chat_id = "''42''" and late = "[Callback ''approve_15000'' ''42'']"
        and taps = "[''approve_15000'']"]
    request_id_collision
     [where s = ex_bot and ta = 15 and tb = "16" and buyer_a = "''Ann''"
        and intent_a = "''asks to meet''" and yes_a = "''Sure, 5pm works''"
        and no_a = "''Sorry, not today''"
        and ma = "\<lparr>mt_thread_key = ''/t/1'', mt_href = Some ''/t/1'', mt_buyer_name = ''Ann'',
              mt_meetup_log = None\<rparr>"
        and buyer_b = "''Bob''" and intent_b = "''asks the price''" and yes_b = "''It is 10''"
        and no_b = "''No''"
        and mb = "\<lparr>mt_thread_key = ''/t/2'', mt_href = Some ''/t/2'', mt_buyer_name = ''Bob'',
              mt_meetup_log = None\<rparr>"
        and chat_id = "''42''" and late = "[Callback ''approve_15000'' ''42'']"
        and taps = "[''approve_15000'']"]
  by (simp add: ex_bot_eq flush_eval)

section \<open>The custom reply\<close>

text \<open>
  C1, evaluated where the code departs from it: the flush of the scenario asks for
  approval; the operator taps the button for a custom reply and then sends the text
  \<open>I will confirm tonight\<close>. The request returns true, and the flush sends the suggested
  reply to the buyer and leaves the custom text in the queue; the next call of
  \<open>drain_send_queue\<close> then sends the custom text as well, so that the buyer gets both.
\<close>

theorem custom_reply_sends_both:
  "fst (flush_one (\<lambda>x. x) ex_cfg
          (ex_env [(20, Callback ''custom_15000'' ''42''),
                   (30, AdminText ''42'' ''I will confirm tonight'')] True) ex_bot ''/t/1'')
     = Continue
   \<and> sent (fst (snd (flush_one (\<lambda>x. x) ex_cfg
          (ex_env [(20, Callback ''custom_15000'' ''42''),
                   (30, AdminText ''42'' ''I will confirm tonight'')] True) ex_bot ''/t/1'')))
     = [(''/t/1'', ''Sure, 5pm works'')]
   \<and> map sa_text (send_queue (fst (snd (flush_one (\<lambda>x. x) ex_cfg
          (ex_env [(20, Callback ''custom_15000'' ''42''),
                   (30, AdminText ''42'' ''I will confirm tonight'')] True) ex_bot ''/t/1''))))
     = [''I will confirm tonight'']
   \<and> sent (drain_send_queue (\<lambda>x. x) (\<lambda>i. \<lparr>open_ok = True, send_ok = True\<rparr>) 1020
        (fst (snd (flush_one (\<lambda>x. x) ex_cfg
          (ex_env [(20, Callback ''custom_15000'' ''42''),
                   (30, AdminText ''42'' ''I will confirm tonight'')] True) ex_bot ''/t/1''))))
     = [(''/t/1'', ''Sure, 5pm works''), (''/t/1'', ''I will confirm tonight'')]"
  by (simp add: ex_bot_eq flush_eval drain_send_queue_def drain_action_def)

end
